theory Spec2Isabelle
  imports Complex_Main
begin

section \<open>JavaScript values\<close>

text \<open>
  The visual is TypeScript compiled to JavaScript. Type annotations and casts
  (\<open><number>x\<close>, \<open><BarChartSettings>{}\<close>, the type argument of \<open>getValue<T>\<close>)
  leave no trace at run time, so the model keeps values dynamically typed where the
  code does, and makes the one run-time failure of this program explicit: reading a
  property of \<open>undefined\<close> raises a \<open>TypeError\<close>.

  Numbers are IEEE doubles in JavaScript. Here a number is an exact rational or
  \<open>NaN\<close>: rounding, overflow and the infinities are outside the model (the program
  divides by \<open>100\<close>, by \<open>4\<close> and by the axis index only). Arithmetic with \<open>NaN\<close>
  yields \<open>NaN\<close>, as in JavaScript. The program rounds every result to binary64 and the
  model does not, so a number the model computes is the program's only where binary64
  computes it exactly.
\<close>

datatype JSError = TypeError

datatype jsnum = Num rat | NaN

fun num_add :: "jsnum \<Rightarrow> jsnum \<Rightarrow> jsnum" where
  "num_add (Num a) (Num b) = Num (a + b)"
| "num_add _ _ = NaN"

fun num_sub :: "jsnum \<Rightarrow> jsnum \<Rightarrow> jsnum" where
  "num_sub (Num a) (Num b) = Num (a - b)"
| "num_sub _ _ = NaN"

fun num_mul :: "jsnum \<Rightarrow> jsnum \<Rightarrow> jsnum" where
  "num_mul (Num a) (Num b) = Num (a * b)"
| "num_mul _ _ = NaN"

text \<open>A zero divisor would give an infinity or \<open>NaN\<close> in JavaScript; the model has only \<open>NaN\<close>.\<close>

fun num_div :: "jsnum \<Rightarrow> jsnum \<Rightarrow> jsnum" where
  "num_div (Num a) (Num b) = (if b = 0 then NaN else Num (a / b))"
| "num_div _ _ = NaN"

text \<open>
  \<open>PrimitiveValue\<close> of the host API is \<open>string | number | boolean | Date\<close>; arrays of
  the query result also hold \<open>null\<close> for blanks, and an index past the end of an array
  reads \<open>undefined\<close>. Dates are left out.
\<close>

datatype PrimitiveValue =
  PString string
| PNumber jsnum
| PBoolean bool
| PNull
| PUndefined

text \<open>
  The conversions between strings and numbers are the JavaScript engine's
  (\<open>Number::toString\<close>, \<open>StringToNumber\<close>); the model takes them as parameters.
\<close>

record JSRuntime =
  NumberToString :: "rat \<Rightarrow> string"
  StringToNumber :: "string \<Rightarrow> jsnum"

text \<open>\<open>v + ''\<close>: the string conversion of a primitive value.\<close>

fun stringify :: "JSRuntime \<Rightarrow> PrimitiveValue \<Rightarrow> string" where
  "stringify js (PString s) = s"
| "stringify js (PNumber (Num r)) = NumberToString js r"
| "stringify js (PNumber NaN) = ''NaN''"
| "stringify js (PBoolean b) = (if b then ''true'' else ''false'')"
| "stringify js PNull = ''null''"
| "stringify js PUndefined = ''undefined''"

text \<open>\<open>xs[i]\<close> on an array: \<open>undefined\<close> past the end.\<close>

definition item :: "'a list \<Rightarrow> nat \<Rightarrow> 'a option" where
  "item xs i = (if i < length xs then Some (xs ! i) else None)"

definition at_value :: "PrimitiveValue list \<Rightarrow> nat \<Rightarrow> PrimitiveValue" where
  "at_value xs i = (if i < length xs then xs ! i else PUndefined)"

section \<open>The host's data: query result, persisted objects, services\<close>

text \<open>
  A fill as the formatting pane persists it: \<open>{solid: {color: string}}\<close>, the
  \<open>solid\<close> part optional (a solid fill always carries its colour string here). A
  persisted property holds a primitive value or a fill.
\<close>

datatype SolidFill = SolidFill (fill_color: string)

record Fill =
  solid :: "SolidFill option"

datatype DataViewPropertyValue =
  Primitive PrimitiveValue
| FillValue Fill

type_synonym DataViewObject = "string \<rightharpoonup> DataViewPropertyValue"

type_synonym DataViewObjects = "string \<rightharpoonup> DataViewObject"

text \<open>
  The query result. Optional is what the guard of \<open>visualTransform\<close> tests:
  \<open>dataViews\<close>, \<open>categorical\<close>, \<open>categories\<close>, the \<open>source\<close> of a category series
  and \<open>values\<close>; \<open>metadata.objects\<close> is optional in the host's type; \<open>metadata\<close>
  itself is always there. The three fields called \<open>values\<close> in the source are
  \<open>category_values\<close> (of a category series), \<open>column_values\<close> (of a value series) and
  \<open>value_columns\<close> (the array of value series) here; \<open>maxLocal\<close> is \<open>undefined\<close> when
  the host declares no maximum.
\<close>

record DataViewMetadata =
  objects :: "DataViewObjects option"

record DataViewCategoryColumn =
  source :: "string option"
  category_values :: "PrimitiveValue list"

record DataViewValueColumn =
  column_values :: "PrimitiveValue list"
  maxLocal :: PrimitiveValue

record DataViewCategorical =
  categories :: "DataViewCategoryColumn list option"
  value_columns :: "DataViewValueColumn list option"

record DataView =
  metadata :: DataViewMetadata
  categorical :: "DataViewCategorical option"

record IViewport =
  width :: jsnum
  height :: jsnum

record VisualUpdateOptions =
  dataViews :: "DataView list option"
  viewport :: IViewport

text \<open>
  Selection identifiers are opaque keys issued by the host; equality of the keys
  stands for the host's \<open>equals\<close>.
\<close>

datatype ISelectionId = SelectionId string nat

text \<open>
  The services of the host the visual calls: \<open>colorPalette.getColor(key).value\<close>,
  \<open>createSelectionIdBuilder().withCategory(category, i).createSelectionId()\<close> and the
  flag \<open>allowInteractions\<close>.
\<close>

record IVisualHost =
  getColor :: "string \<Rightarrow> string"
  withCategory :: "DataViewCategoryColumn \<Rightarrow> nat \<Rightarrow> ISelectionId"
  allowInteractions :: bool

section \<open>View model\<close>

text \<open>
  Lines 9 to 52. The fields \<open>value\<close> of a data point and \<open>show\<close> of \<open>enableAxis\<close> are
  \<open>point_value\<close> and \<open>show_axis\<close> here. The settings read from the persisted objects
  keep the values as the host stored them; the two colours are strings, read from a
  fill.
\<close>

record BarChartDataPoint =
  point_value :: PrimitiveValue
  category :: string
  vaxis :: rat
  color :: string
  selectionId :: ISelectionId

record EnableAxis =
  show_axis :: DataViewPropertyValue

record ColorSelector =
  color1 :: string
  color2 :: string

record GeneralView =
  opacity :: DataViewPropertyValue
  y2trim :: DataViewPropertyValue

text \<open>
  The guard of \<open>visualTransform\<close> returns \<open><BarChartSettings>{}\<close>, an object with
  none of the three parts, so each part is optional in the model.
\<close>

record BarChartSettings =
  enableAxis :: "EnableAxis option"
  colorSelector :: "ColorSelector option"
  generalView :: "GeneralView option"

record BarChartViewModel =
  dataPoints :: "BarChartDataPoint list"
  dataMax :: PrimitiveValue
  dataMax2 :: PrimitiveValue
  settings :: BarChartSettings

section \<open>visualTransform\<close>

text \<open>
  Modelled from the spec: \<open>getValue\<close> lives in a utility file of the repository that
  is not among the sources. The spec says each property is read from the host metadata
  by object name and property name, "defaulting to a hard-coded constant if unset"; the
  call sites pass \<open>(objects, objectName, propertyName, defaultValue)\<close>.
\<close>

definition getValue ::
  "DataViewObjects option \<Rightarrow> string \<Rightarrow> string \<Rightarrow> DataViewPropertyValue \<Rightarrow> DataViewPropertyValue"
where
  "getValue objs objectName propertyName defaultValue =
    (case objs of
       None \<Rightarrow> defaultValue
     | Some os \<Rightarrow>
        (case os objectName of
           None \<Rightarrow> defaultValue
         | Some ob \<Rightarrow>
            (case ob propertyName of
               None \<Rightarrow> defaultValue
             | Some property \<Rightarrow> property)))"

text \<open>
  \<open>v.solid.color\<close>. A fill without its \<open>solid\<close> part, and every primitive value
  (a string has no property \<open>solid\<close>; \<open>null\<close> and \<open>undefined\<close> have no properties
  at all), ends in reading \<open>color\<close> of \<open>undefined\<close>.
\<close>

fun solid_color :: "DataViewPropertyValue \<Rightarrow> JSError + string" where
  "solid_color (FillValue f) =
    (case solid f of None \<Rightarrow> Inl TypeError | Some s \<Rightarrow> Inr (fill_color s))"
| "solid_color (Primitive p) = Inl TypeError"

text \<open>
  Lines 65 to 77: \<open>defaultSettings\<close>, part by part. \<open>1 + ''\<close> is the string \<open>1\<close>, and
  the palette's answer for it is a colour string.
\<close>

definition defaultEnableAxis :: EnableAxis where
  "defaultEnableAxis = \<lparr>show_axis = Primitive (PBoolean True)\<rparr>"

definition defaultColorSelector :: "IVisualHost \<Rightarrow> ColorSelector" where
  "defaultColorSelector host = \<lparr>color1 = getColor host ''1'', color2 = getColor host ''2''\<rparr>"

definition defaultGeneralView :: GeneralView where
  "defaultGeneralView =
    \<lparr>opacity = Primitive (PNumber (Num 100)), y2trim = Primitive (PNumber (Num 120))\<rparr>"

definition defaultSettings :: "IVisualHost \<Rightarrow> BarChartSettings" where
  "defaultSettings host =
    \<lparr>enableAxis = Some defaultEnableAxis,
     colorSelector = Some (defaultColorSelector host),
     generalView = Some defaultGeneralView\<rparr>"

text \<open>Lines 78 to 83: the view model the guard returns.\<close>

definition emptyViewModel :: BarChartViewModel where
  "emptyViewModel =
    \<lparr>dataPoints = [], dataMax = PNumber (Num 0), dataMax2 = PNumber (Num 0),
     settings = \<lparr>enableAxis = None, colorSelector = None, generalView = None\<rparr>\<rparr>"

text \<open>
  Lines 104 to 116: the settings read from the persisted objects. The default handed to
  \<open>getValue<Fill>\<close> is \<open>defaultSettings.colorSelector.color1\<close>, the colour string
  itself, and \<open>.solid.color\<close> is read from whatever \<open>getValue\<close> returns.
\<close>

definition resolveSettings :: "IVisualHost \<Rightarrow> DataViewObjects option \<Rightarrow> JSError + BarChartSettings" where
  "resolveSettings host objs =
    (case solid_color (getValue objs ''colorSelector'' ''fill''
                         (Primitive (PString (color1 (defaultColorSelector host))))) of
       Inl e \<Rightarrow> Inl e
     | Inr c1 \<Rightarrow>
    (case solid_color (getValue objs ''colorSelector'' ''fill2''
                         (Primitive (PString (color2 (defaultColorSelector host))))) of
       Inl e \<Rightarrow> Inl e
     | Inr c2 \<Rightarrow>
        Inr \<lparr>enableAxis = Some \<lparr>show_axis =
                 getValue objs ''enableAxis'' ''show'' (show_axis defaultEnableAxis)\<rparr>,
             colorSelector = Some \<lparr>color1 = c1, color2 = c2\<rparr>,
             generalView = Some \<lparr>opacity =
                 getValue objs ''generalView'' ''opacity'' (opacity defaultGeneralView),
               y2trim =
                 getValue objs ''generalView'' ''y2trim'' (y2trim defaultGeneralView)\<rparr>\<rparr>))"

text \<open>Lines 124 to 132 and 133 to 141: the two points pushed for index \<open>i\<close>.\<close>

definition firstAxisPoint ::
  "JSRuntime \<Rightarrow> IVisualHost \<Rightarrow> ColorSelector \<Rightarrow> DataViewCategoryColumn \<Rightarrow>
   DataViewValueColumn \<Rightarrow> nat \<Rightarrow> BarChartDataPoint"
where
  "firstAxisPoint js host cs cat dataValue i =
    \<lparr>point_value = at_value (column_values dataValue) i,
     category = stringify js (at_value (category_values cat) i),
     vaxis = 1,
     color = color1 cs,
     selectionId = withCategory host cat i\<rparr>"

definition secondAxisPoint ::
  "JSRuntime \<Rightarrow> IVisualHost \<Rightarrow> ColorSelector \<Rightarrow> DataViewCategoryColumn \<Rightarrow>
   DataViewValueColumn \<Rightarrow> nat \<Rightarrow> BarChartDataPoint"
where
  "secondAxisPoint js host cs cat dataValue2 i =
    \<lparr>point_value = at_value (column_values dataValue2) i,
     category = stringify js (at_value (category_values cat) i),
     vaxis = 2,
     color = color2 cs,
     selectionId = withCategory host cat i\<rparr>"

text \<open>
  Lines 117 to 142: the loop \<open>for (i = 0; i < len; i++)\<close>. \<open>dataValue2\<close> is
  \<open>categorical.values[1]\<close>, \<open>undefined\<close> when the query has one value series; then
  \<open>dataValue2.values[i]\<close> raises in the first round. (The unused local
  \<open>defaultColor\<close> is left out.)
\<close>

function pointsLoop ::
  "JSRuntime \<Rightarrow> IVisualHost \<Rightarrow> ColorSelector \<Rightarrow> DataViewCategoryColumn \<Rightarrow>
   DataViewValueColumn \<Rightarrow> DataViewValueColumn option \<Rightarrow> nat \<Rightarrow> nat \<Rightarrow>
   BarChartDataPoint list \<Rightarrow> JSError + BarChartDataPoint list"
where
  "pointsLoop js host cs cat dataValue dataValue2 i len barChartDataPoints =
    (if i < len then
       (case dataValue2 of
          None \<Rightarrow> Inl TypeError
        | Some dv2 \<Rightarrow>
            pointsLoop js host cs cat dataValue dataValue2 (Suc i) len
              (barChartDataPoints
                 @ [firstAxisPoint js host cs cat dataValue i,
                    secondAxisPoint js host cs cat dv2 i]))
     else Inr barChartDataPoints)"
  by pat_completeness auto
termination
  by (relation "measure (\<lambda>(js, host, cs, cat, dataValue, dataValue2, i, len, acc). len - i)") auto

text \<open>
  Lines 93 to 151, after the guard. \<open>dataValue\<close> is \<open>categorical.values[0]\<close>: the loop
  bound reads \<open>dataValue.values.length\<close>, and line 144 reads \<open>dataValue2.maxLocal\<close>.
\<close>

definition transformBody ::
  "JSRuntime \<Rightarrow> IVisualHost \<Rightarrow> DataViewObjects option \<Rightarrow> DataViewCategoryColumn \<Rightarrow>
   DataViewValueColumn option \<Rightarrow> DataViewValueColumn option \<Rightarrow> JSError + BarChartViewModel"
where
  "transformBody js host objs cat dataValue dataValue2 =
    (case resolveSettings host objs of
       Inl e \<Rightarrow> Inl e
     | Inr barChartSettings \<Rightarrow>
    (case colorSelector barChartSettings of
       None \<Rightarrow> Inl TypeError
     | Some cs \<Rightarrow>
    (case dataValue of
       None \<Rightarrow> Inl TypeError
     | Some dv1 \<Rightarrow>
    (case pointsLoop js host cs cat dv1 dataValue2 0
            (max (length (category_values cat)) (length (column_values dv1))) [] of
       Inl e \<Rightarrow> Inl e
     | Inr barChartDataPoints \<Rightarrow>
    (case dataValue2 of
       None \<Rightarrow> Inl TypeError
     | Some dv2 \<Rightarrow>
        Inr \<lparr>dataPoints = barChartDataPoints,
             dataMax = maxLocal dv1,
             dataMax2 = maxLocal dv2,
             settings = barChartSettings\<rparr>)))))"

text \<open>
  Lines 63 to 152. The guard of lines 85 to 91 tests, in this order, \<open>dataViews\<close>,
  \<open>dataViews[0]\<close>, \<open>.categorical\<close>, \<open>.categorical.categories\<close> (an array, also an
  empty one, passes), \<open>.categories[0].source\<close> (which raises when the array is empty) and
  \<open>.categorical.values\<close> (the array of value series, not the series themselves).
\<close>

definition visualTransform :: "JSRuntime \<Rightarrow> IVisualHost \<Rightarrow> VisualUpdateOptions \<Rightarrow> JSError + BarChartViewModel" where
  "visualTransform js host options =
    (case dataViews options of
       None \<Rightarrow> Inr emptyViewModel
     | Some dvs \<Rightarrow>
    (case item dvs 0 of
       None \<Rightarrow> Inr emptyViewModel
     | Some dv \<Rightarrow>
    (case categorical dv of
       None \<Rightarrow> Inr emptyViewModel
     | Some c \<Rightarrow>
    (case categories c of
       None \<Rightarrow> Inr emptyViewModel
     | Some cats \<Rightarrow>
    (case item cats 0 of
       None \<Rightarrow> Inl TypeError
     | Some cat \<Rightarrow>
    (case source cat of
       None \<Rightarrow> Inr emptyViewModel
     | Some src \<Rightarrow>
    (case value_columns c of
       None \<Rightarrow> Inr emptyViewModel
     | Some vals \<Rightarrow>
        transformBody js host (objects (metadata dv)) cat (item vals 0) (item vals 1))))))))"

section \<open>The renderer\<close>

text \<open>
  Truthiness and numeric conversion of the values the settings may hold. A fill is an
  object: truthy, and \<open>NaN\<close> as a number.
\<close>

fun PrimitiveToNumber :: "JSRuntime \<Rightarrow> PrimitiveValue \<Rightarrow> jsnum" where
  "PrimitiveToNumber js (PString s) = StringToNumber js s"
| "PrimitiveToNumber js (PNumber n) = n"
| "PrimitiveToNumber js (PBoolean b) = Num (if b then 1 else 0)"
| "PrimitiveToNumber js PNull = Num 0"
| "PrimitiveToNumber js PUndefined = NaN"

fun ToNumber :: "JSRuntime \<Rightarrow> DataViewPropertyValue \<Rightarrow> jsnum" where
  "ToNumber js (Primitive p) = PrimitiveToNumber js p"
| "ToNumber js (FillValue f) = NaN"

fun ToBoolean :: "DataViewPropertyValue \<Rightarrow> bool" where
  "ToBoolean (Primitive (PString s)) = (s \<noteq> [])"
| "ToBoolean (Primitive (PNumber (Num r))) = (r \<noteq> 0)"
| "ToBoolean (Primitive (PNumber NaN)) = False"
| "ToBoolean (Primitive (PBoolean b)) = b"
| "ToBoolean (Primitive PNull) = False"
| "ToBoolean (Primitive PUndefined) = False"
| "ToBoolean (FillValue f) = True"

text \<open>
  The scale library (d3, version 3) is not part of the repository. A linear scale is
  the domain and range the visual hands to \<open>d3.scale.linear().domain(..).range(..)\<close>; an
  ordinal scale is what \<open>rangeRoundBands\<close> returns: the start of each category's band
  (\<open>xScale(category)\<close>) and the band width (\<open>xScale.rangeBand()\<close>). How the library maps
  a value through a linear scale and how it lays out the bands are parameters.
\<close>

record LinearScale =
  scale_domain :: "jsnum \<times> jsnum"
  scale_range :: "jsnum \<times> jsnum"

record OrdinalScale =
  bandStart :: "string \<Rightarrow> jsnum"
  rangeBand :: jsnum

record D3 =
  linear :: "LinearScale \<Rightarrow> PrimitiveValue \<Rightarrow> jsnum"
  rangeRoundBands :: "string list \<Rightarrow> jsnum \<times> jsnum \<Rightarrow> jsnum \<Rightarrow> jsnum \<Rightarrow> OrdinalScale"

text \<open>One \<open>rect\<close> of class \<open>bar\<close>: the data point bound to it and its attributes.\<close>

record Rect =
  datum :: BarChartDataPoint
  attr_width :: jsnum
  attr_height :: jsnum
  attr_y :: jsnum
  attr_x :: jsnum
  attr_fill :: string
  attr_fill_opacity :: jsnum

text \<open>
  The fields of the class \<open>BarChart\<close> and what it has drawn: \<open>barDataPoints\<close> and
  \<open>barChartSettings\<close> are \<open>undefined\<close> until the first \<open>update\<close>; the axis containers
  show the scale of the last \<open>update\<close>; \<open>clickAllowed\<close> is the flag
  \<open>allowInteractions\<close> as the click handlers of the last \<open>update\<close> captured it.
  (Font sizes, axis transforms and tooltips are left out.)
\<close>

record BarChart =
  barDataPoints :: "BarChartDataPoint list option"
  barChartSettings :: "BarChartSettings option"
  svg_size :: "(jsnum \<times> jsnum) option"
  xAxis :: "OrdinalScale option"
  yAxis :: "LinearScale option"
  yAxis2 :: "LinearScale option"
  bars :: "Rect list"
  clickAllowed :: bool

text \<open>Lines 189 to 208: the constructor.\<close>

definition constructor :: BarChart where
  "constructor =
    \<lparr>barDataPoints = None, barChartSettings = None, svg_size = None,
     xAxis = None, yAxis = None, yAxis2 = None, bars = [], clickAllowed = False\<rparr>"

text \<open>Lines 168 to 179: \<open>BarChart.Config\<close>.\<close>

definition xScalePadding :: jsnum where
  "xScalePadding = Num (1 / 10)"

definition solidOpacity :: jsnum where
  "solidOpacity = Num 1"

definition transparentOpacity :: jsnum where
  "transparentOpacity = Num (1 / 2)"

definition margins_bottom :: jsnum where
  "margins_bottom = Num 25"

text \<open>
  Lines 283 to 290: the attributes of the bar of data point \<open>d\<close>. The arithmetic is the
  source's, term by term: \<open>height - ((d.vaxis - 1) * yScale2(v)) - ((d.vaxis - 2) * -1 * yScale(v))\<close>
  and so on; \<open>h\<close> is the local \<open>height\<close>.
\<close>

definition barRect ::
  "D3 \<Rightarrow> OrdinalScale \<Rightarrow> LinearScale \<Rightarrow> LinearScale \<Rightarrow> jsnum \<Rightarrow> jsnum \<Rightarrow>
   BarChartDataPoint \<Rightarrow> Rect"
where
  "barRect d3 xScale yScale yScale2 h fillOpacity d =
    \<lparr>datum = d,
     attr_width = num_div (rangeBand xScale) (Num (vaxis d)),
     attr_height =
       num_sub
         (num_sub h (num_mul (Num (vaxis d - 1)) (linear d3 yScale2 (point_value d))))
         (num_mul (num_mul (Num (vaxis d - 2)) (Num (- 1))) (linear d3 yScale (point_value d))),
     attr_y =
       num_add
         (num_mul (Num (vaxis d - 1)) (linear d3 yScale2 (point_value d)))
         (num_mul (num_mul (Num (vaxis d - 2)) (Num (- 1))) (linear d3 yScale (point_value d))),
     attr_x =
       num_add (bandStart xScale (category d))
         (num_mul (num_div (rangeBand xScale) (Num 4)) (Num (vaxis d - 1))),
     attr_fill = color d,
     attr_fill_opacity = fillOpacity\<rparr>"

text \<open>
  Lines 218 to 320: \<open>update\<close>. The result is the error raised, if any, and the state
  the call leaves behind: the two fields are assigned (lines 220 and 221) and the
  drawing surface is resized (line 226) before line 231 reads
  \<open>settings.enableAxis.show\<close>. The data join rebinds all bars by index, adds the
  missing ones and removes the surplus, and every attribute is set anew, so the bars
  after the call are one \<open>rect\<close> per data point.
\<close>

definition update ::
  "JSRuntime \<Rightarrow> D3 \<Rightarrow> IVisualHost \<Rightarrow> VisualUpdateOptions \<Rightarrow> BarChart \<Rightarrow> JSError option \<times> BarChart"
where
  "update js d3 host options this =
    (case visualTransform js host options of
       Inl e \<Rightarrow> (Some e, this)
     | Inr viewModel \<Rightarrow>
        (let w = width (viewport options);
             this1 = this\<lparr>barChartSettings := Some (settings viewModel),
                          barDataPoints := Some (dataPoints viewModel),
                          svg_size := Some (w, height (viewport options))\<rparr>
         in
         (case enableAxis (settings viewModel) of
            None \<Rightarrow> (Some TypeError, this1)
          | Some ea \<Rightarrow>
         (case generalView (settings viewModel) of
            None \<Rightarrow> (Some TypeError, this1)
          | Some gv \<Rightarrow>
             (let h = (if ToBoolean (show_axis ea)
                       then num_sub (height (viewport options)) margins_bottom
                       else height (viewport options));
                  yScale =
                    \<lparr>scale_domain =
                       (Num 0,
                        num_mul (PrimitiveToNumber js (dataMax viewModel))
                          (num_sub (Num 2) (num_div (ToNumber js (y2trim gv)) (Num 100)))),
                     scale_range = (h, Num 0)\<rparr>;
                  yScale2 =
                    \<lparr>scale_domain =
                       (Num 0,
                        num_mul (PrimitiveToNumber js (dataMax2 viewModel))
                          (num_div (ToNumber js (y2trim gv)) (Num 100))),
                     scale_range = (h, Num 0)\<rparr>;
                  xScale = rangeRoundBands d3 (map category (dataPoints viewModel))
                             (Num 0, w) xScalePadding (Num (2 / 10))
              in
              (None,
               this1\<lparr>xAxis := Some xScale,
                      yAxis := Some yScale,
                      yAxis2 := Some yScale2,
                      bars := map (barRect d3 xScale yScale yScale2 h
                                     (num_div (ToNumber js (opacity gv)) (Num 100)))
                                (dataPoints viewModel),
                      clickAllowed := allowInteractions host\<rparr>))))))"

text \<open>
  Lines 301 to 316: the click handler of bar number \<open>k\<close>. When interactions are
  allowed it asks the selection manager to select the bar's identifier; \<open>barClick\<close> is
  that identifier (\<open>None\<close>: the handler does nothing). The promise's callback is
  \<open>selectionResolved\<close>: it sets the opacity of all bars, then of the clicked one. The
  bars are those of the \<open>update\<close> that attached the handler, the last one.
\<close>

definition barClick :: "BarChart \<Rightarrow> nat \<Rightarrow> ISelectionId option" where
  "barClick this k =
    (if clickAllowed this then
       (case item (bars this) k of
          None \<Rightarrow> None
        | Some r \<Rightarrow> Some (selectionId (datum r)))
     else None)"

definition selectionResolved :: "nat \<Rightarrow> ISelectionId list \<Rightarrow> BarChart \<Rightarrow> BarChart" where
  "selectionResolved k ids this =
    (let all_set = map (\<lambda>r. r\<lparr>attr_fill_opacity :=
                          (if length ids > 0 then transparentOpacity else solidOpacity)\<rparr>)
                     (bars this)
     in this\<lparr>bars :=
          (if k < length all_set
           then all_set[k := (all_set ! k)\<lparr>attr_fill_opacity := solidOpacity\<rparr>]
           else all_set)\<rparr>)"

section \<open>enumerateObjectInstances\<close>

record VisualObjectInstance =
  objectName :: string
  displayName :: "string option"
  properties :: "(string \<times> DataViewPropertyValue) list"
  validValues :: "(string \<times> rat \<times> rat) list"
  selector :: "ISelectionId option"

text \<open>
  Lines 328 to 403. The \<open>switch\<close> reads \<open>this.barChartSettings.enableAxis.show\<close> and
  its siblings without a test; every other name falls through to the empty list.
\<close>

definition enumerateObjectInstances :: "BarChart \<Rightarrow> string \<Rightarrow> JSError + VisualObjectInstance list" where
  "enumerateObjectInstances this name =
    (if name = ''enableAxis'' then
       (case barChartSettings this of
          None \<Rightarrow> Inl TypeError
        | Some s \<Rightarrow>
       (case enableAxis s of
          None \<Rightarrow> Inl TypeError
        | Some ea \<Rightarrow>
           Inr [\<lparr>objectName = name, displayName = None,
                 properties = [(''show'', show_axis ea)],
                 validValues = [], selector = None\<rparr>]))
     else if name = ''colorSelector'' then
       (case barChartSettings this of
          None \<Rightarrow> Inl TypeError
        | Some s \<Rightarrow>
       (case colorSelector s of
          None \<Rightarrow> Inl TypeError
        | Some cs \<Rightarrow>
           Inr [\<lparr>objectName = name, displayName = Some ''Colors'',
                 properties =
                   [(''fill'', FillValue \<lparr>solid = Some (SolidFill (color1 cs))\<rparr>),
                    (''fill2'', FillValue \<lparr>solid = Some (SolidFill (color2 cs))\<rparr>)],
                 validValues = [], selector = None\<rparr>]))
     else if name = ''generalView'' then
       (case barChartSettings this of
          None \<Rightarrow> Inl TypeError
        | Some s \<Rightarrow>
       (case generalView s of
          None \<Rightarrow> Inl TypeError
        | Some gv \<Rightarrow>
           Inr [\<lparr>objectName = name, displayName = None,
                 properties = [(''opacity'', opacity gv), (''y2trim'', y2trim gv)],
                 validValues = [(''opacity'', 10, 100), (''y2trim'', 50, 150)],
                 selector = None\<rparr>]))
     else Inr [])"

section \<open>Names for the parts of an input\<close>

text \<open>
  \<open>firstCategory\<close> is \<open>options.dataViews[0].categorical.categories[0]\<close> where it
  exists. \<open>queryParts\<close> gives, for an input that passes the guard of
  \<open>visualTransform\<close>, the persisted objects, the category series and the array of value
  series.
\<close>

definition firstCategory :: "VisualUpdateOptions \<Rightarrow> DataViewCategoryColumn option" where
  "firstCategory options =
    (case dataViews options of
       None \<Rightarrow> None
     | Some dvs \<Rightarrow>
    (case item dvs 0 of
       None \<Rightarrow> None
     | Some dv \<Rightarrow>
    (case categorical dv of
       None \<Rightarrow> None
     | Some c \<Rightarrow>
    (case categories c of
       None \<Rightarrow> None
     | Some cats \<Rightarrow> item cats 0))))"

definition queryParts ::
  "VisualUpdateOptions \<Rightarrow>
   (DataViewObjects option \<times> DataViewCategoryColumn \<times> DataViewValueColumn list) option"
where
  "queryParts options =
    (case dataViews options of
       None \<Rightarrow> None
     | Some dvs \<Rightarrow>
    (case item dvs 0 of
       None \<Rightarrow> None
     | Some dv \<Rightarrow>
    (case categorical dv of
       None \<Rightarrow> None
     | Some c \<Rightarrow>
    (case categories c of
       None \<Rightarrow> None
     | Some cats \<Rightarrow>
    (case item cats 0 of
       None \<Rightarrow> None
     | Some cat \<Rightarrow>
    (case source cat of
       None \<Rightarrow> None
     | Some src \<Rightarrow>
    (case value_columns c of
       None \<Rightarrow> None
     | Some vals \<Rightarrow> Some (objects (metadata dv), cat, vals))))))))"

text \<open>The value the host has persisted for a property of an object, if any.\<close>

definition persisted :: "DataViewObjects option \<Rightarrow> string \<Rightarrow> string \<Rightarrow> DataViewPropertyValue option" where
  "persisted objs oname pname =
    (case objs of
       None \<Rightarrow> None
     | Some os \<Rightarrow> (case os oname of None \<Rightarrow> None | Some ob \<Rightarrow> ob pname))"

section \<open>Worked examples\<close>

text \<open>
  A runtime, a host and a scale library to run the model on concrete inputs. The
  examples convert no number to a string and no string to a number.
\<close>

definition exampleRuntime :: JSRuntime where
  "exampleRuntime = \<lparr>NumberToString = (\<lambda>r. ''0''), StringToNumber = (\<lambda>s. NaN)\<rparr>"

definition exampleHost :: IVisualHost where
  "exampleHost =
    \<lparr>getColor = (\<lambda>key. if key = ''1'' then ''#01B8AA'' else ''#374649''),
     withCategory = (\<lambda>c i. SelectionId (case source c of None \<Rightarrow> [] | Some s \<Rightarrow> s) i),
     allowInteractions = True\<rparr>"

text \<open>
  An executable reading of the two calls into d3 (version 3): a linear scale maps \<open>x\<close>
  to \<open>r0 * (1 - u) + r1 * u\<close> with \<open>u = (x - d0) / (d1 - d0)\<close> (and \<open>u = 0\<close> on an
  empty domain); \<open>rangeRoundBands\<close> lays the distinct categories out in first-seen
  order with whole-pixel steps. Only the worked examples use it.
\<close>

fun index_of :: "'a list \<Rightarrow> 'a \<Rightarrow> nat option" where
  "index_of [] x = None"
| "index_of (y # ys) x = (if x = y then Some 0 else map_option Suc (index_of ys x))"

definition d3_linear :: "JSRuntime \<Rightarrow> LinearScale \<Rightarrow> PrimitiveValue \<Rightarrow> jsnum" where
  "d3_linear js sc v =
    (let x = PrimitiveToNumber js v;
         a = fst (scale_domain sc);
         b = num_sub (snd (scale_domain sc)) a;
         u = (if b = Num 0 then num_mul (num_sub x a) (Num 0) else num_div (num_sub x a) b)
     in num_add (num_mul (fst (scale_range sc)) (num_sub (Num 1) u))
          (num_mul (snd (scale_range sc)) u))"

definition d3_rangeRoundBands :: "string list \<Rightarrow> jsnum \<times> jsnum \<Rightarrow> jsnum \<Rightarrow> jsnum \<Rightarrow> OrdinalScale" where
  "d3_rangeRoundBands xs r padding outerPadding =
    (case (fst r, snd r, padding, outerPadding) of
       (Num start, Num stop, Num p, Num outer) \<Rightarrow>
         (let dom = rev (remdups (rev xs));
              n = of_nat (length dom);
              step = of_int \<lfloor>(stop - start) / (n - p + 2 * outer)\<rfloor>;
              first = start + of_int \<lfloor>(stop - start - (n - p) * step) / 2 + 1 / 2\<rfloor>
          in \<lparr>bandStart = (\<lambda>x. case index_of dom x of
                                    None \<Rightarrow> NaN
                                  | Some i \<Rightarrow> Num (first + step * of_nat i)),
              rangeBand = Num (of_int \<lfloor>step * (1 - p) + 1 / 2\<rfloor>)\<rparr>)
     | _ \<Rightarrow> \<lparr>bandStart = (\<lambda>x. NaN), rangeBand = NaN\<rparr>)"

definition exampleD3 :: D3 where
  "exampleD3 = \<lparr>linear = d3_linear exampleRuntime, rangeRoundBands = d3_rangeRoundBands\<rparr>"

definition exampleCategory :: DataViewCategoryColumn where
  "exampleCategory = \<lparr>source = Some ''Region'', category_values = [PString ''A'', PString ''B'']\<rparr>"

definition exampleSeries1 :: DataViewValueColumn where
  "exampleSeries1 =
    \<lparr>column_values = [PNumber (Num 40), PNumber (Num 100)], maxLocal = PNumber (Num 100)\<rparr>"

definition exampleSeries2 :: DataViewValueColumn where
  "exampleSeries2 =
    \<lparr>column_values = [PNumber (Num 15), PNumber (Num 50)], maxLocal = PNumber (Num 50)\<rparr>"

definition exampleObjects :: DataViewObjects where
  "exampleObjects =
    [''colorSelector'' \<mapsto>
       [''fill'' \<mapsto> FillValue \<lparr>solid = Some (SolidFill ''#111111'')\<rparr>,
        ''fill2'' \<mapsto> FillValue \<lparr>solid = Some (SolidFill ''#222222'')\<rparr>],
     ''generalView'' \<mapsto> [''opacity'' \<mapsto> Primitive (PNumber (Num 75))]]"

definition exampleQuery :: "DataViewObjects option \<Rightarrow> DataViewValueColumn list \<Rightarrow> VisualUpdateOptions" where
  "exampleQuery objs series =
    \<lparr>dataViews = Some [\<lparr>metadata = \<lparr>objects = objs\<rparr>,
                         categorical = Some \<lparr>categories = Some [exampleCategory],
                                             value_columns = Some series\<rparr>\<rparr>],
     viewport = \<lparr>width = Num 400, height = Num 125\<rparr>\<rparr>"

definition exampleOptions :: VisualUpdateOptions where
  "exampleOptions = exampleQuery (Some exampleObjects) [exampleSeries1, exampleSeries2]"

definition exampleChart :: BarChart where
  "exampleChart = snd (update exampleRuntime exampleD3 exampleHost exampleOptions constructor)"

definition exampleViewModel :: BarChartViewModel where
  "exampleViewModel =
     \<lparr>dataPoints =
            [\<lparr>point_value = PNumber (Num 40), category = ''A'', vaxis = 1,
              color = ''#111111'', selectionId = SelectionId ''Region'' 0\<rparr>,
             \<lparr>point_value = PNumber (Num 15), category = ''A'', vaxis = 2,
              color = ''#222222'', selectionId = SelectionId ''Region'' 0\<rparr>,
             \<lparr>point_value = PNumber (Num 100), category = ''B'', vaxis = 1,
              color = ''#111111'', selectionId = SelectionId ''Region'' 1\<rparr>,
             \<lparr>point_value = PNumber (Num 50), category = ''B'', vaxis = 2,
              color = ''#222222'', selectionId = SelectionId ''Region'' 1\<rparr>],
          dataMax = PNumber (Num 100), dataMax2 = PNumber (Num 50),
          settings =
            \<lparr>enableAxis = Some \<lparr>show_axis = Primitive (PBoolean True)\<rparr>,
             colorSelector = Some \<lparr>color1 = ''#111111'', color2 = ''#222222''\<rparr>,
             generalView = Some \<lparr>opacity = Primitive (PNumber (Num 75)),
                                 y2trim = Primitive (PNumber (Num 120))\<rparr>\<rparr>\<rparr>"

definition exampleOpacityOnly :: DataViewObjects where
  "exampleOpacityOnly = [''generalView'' \<mapsto> [''opacity'' \<mapsto> Primitive (PNumber (Num 75))]]"

definition exampleNoData :: VisualUpdateOptions where
  "exampleNoData = \<lparr>dataViews = None, viewport = \<lparr>width = Num 400, height = Num 125\<rparr>\<rparr>"

definition exampleSwappedViewModel :: BarChartViewModel where
  "exampleSwappedViewModel =
     \<lparr>dataPoints =
            [\<lparr>point_value = PNumber (Num 15), category = ''A'', vaxis = 1,
              color = ''#111111'', selectionId = SelectionId ''Region'' 0\<rparr>,
             \<lparr>point_value = PNumber (Num 40), category = ''A'', vaxis = 2,
              color = ''#222222'', selectionId = SelectionId ''Region'' 0\<rparr>,
             \<lparr>point_value = PNumber (Num 50), category = ''B'', vaxis = 1,
              color = ''#111111'', selectionId = SelectionId ''Region'' 1\<rparr>,
             \<lparr>point_value = PNumber (Num 100), category = ''B'', vaxis = 2,
              color = ''#222222'', selectionId = SelectionId ''Region'' 1\<rparr>],
          dataMax = PNumber (Num 50), dataMax2 = PNumber (Num 100),
          settings =
            \<lparr>enableAxis = Some \<lparr>show_axis = Primitive (PBoolean True)\<rparr>,
             colorSelector = Some \<lparr>color1 = ''#111111'', color2 = ''#222222''\<rparr>,
             generalView = Some \<lparr>opacity = Primitive (PNumber (Num 75)),
                                 y2trim = Primitive (PNumber (Num 120))\<rparr>\<rparr>\<rparr>"

section \<open>The loop of visualTransform\<close>

declare pointsLoop.simps [simp del]

lemma pointsLoop_Some:
  "pointsLoop js host cs cat dv1 (Some dv2) i len acc =
     Inr (acc @ concat (map (\<lambda>j. [firstAxisPoint js host cs cat dv1 j,
                                     secondAxisPoint js host cs cat dv2 j]) [i..<len]))"
proof (induction "len - i" arbitrary: i acc)
  case 0
  then show ?case
    by (subst pointsLoop.simps) simp
next
  case (Suc n)
  then have lt: "i < len" and step: "n = len - Suc i"
    by simp_all
  show ?case
    using lt Suc.hyps(1) [OF step]
    by (subst pointsLoop.simps) (simp add: upt_conv_Cons)
qed

lemma pointsLoop_None:
  "pointsLoop js host cs cat dv1 None i len acc = (if i < len then Inl TypeError else Inr acc)"
  by (subst pointsLoop.simps) simp

lemma length_pairs: "length (concat (map (\<lambda>j. [f j, g j]) [0..<n])) = 2 * n"
  by (induction n) simp_all

lemma nth_pairs:
  "i < n \<Longrightarrow> concat (map (\<lambda>j. [f j, g j]) [0..<n]) ! (2 * i) = f i
     \<and> concat (map (\<lambda>j. [f j, g j]) [0..<n]) ! (2 * i + 1) = g i"
proof (induction n)
  case 0
  then show ?case by simp
next
  case (Suc n)
  show ?case
  proof (cases "i < n")
    case True
    then show ?thesis
      using Suc.IH by (simp add: nth_append length_pairs)
  next
    case False
    with Suc.prems have "i = n" by simp
    then show ?thesis
      by (simp add: nth_append length_pairs)
  qed
qed

section \<open>The structure of visualTransform\<close>

lemma JSError_only: "(e :: JSError) = TypeError"
  by (cases e) simp

lemma nth_pairs_any:
  assumes "k < 2 * n"
  shows "concat (map (\<lambda>j. [f j, g j]) [0..<n]) ! k = (if even k then f (k div 2) else g (k div 2))"
proof -
  have i: "k div 2 < n"
    using assms by simp
  show ?thesis
  proof (cases "even k")
    case True
    then have "k = 2 * (k div 2)" by simp
    then show ?thesis
      using nth_pairs [OF i, of f g] True by metis
  next
    case False
    then have "k = 2 * (k div 2) + 1" by (simp add: odd_two_times_div_two_succ)
    then show ?thesis
      using nth_pairs [OF i, of f g] False by metis
  qed
qed

lemma queryParts_firstCategory:
  "queryParts options = Some (objs, cat, vals) \<Longrightarrow> firstCategory options = Some cat"
  by (auto simp: queryParts_def firstCategory_def split: option.splits)

lemma visualTransform_queryParts:
  "queryParts options = Some (objs, cat, vals) \<Longrightarrow>
     visualTransform js host options = transformBody js host objs cat (item vals 0) (item vals 1)"
  by (auto simp: queryParts_def visualTransform_def split: option.splits)

lemma visualTransform_guard:
  assumes "dataViews options = None
    \<or> (\<exists>dvs. dataViews options = Some dvs \<and> item dvs 0 = None)
    \<or> (\<exists>dvs dv. dataViews options = Some dvs \<and> item dvs 0 = Some dv \<and> categorical dv = None)
    \<or> (\<exists>dvs dv c. dataViews options = Some dvs \<and> item dvs 0 = Some dv
          \<and> categorical dv = Some c \<and> categories c = None)
    \<or> (\<exists>dvs dv c cats cat. dataViews options = Some dvs \<and> item dvs 0 = Some dv
          \<and> categorical dv = Some c \<and> categories c = Some cats \<and> item cats 0 = Some cat
          \<and> (source cat = None \<or> value_columns c = None))"
  shows "visualTransform js host options = Inr emptyViewModel"
  using assms by (auto simp: visualTransform_def split: option.splits)

lemma resolveSettings_Inr:
  assumes "resolveSettings host objs = Inr st"
  shows "\<exists>ea cs gv. enableAxis st = Some ea \<and> colorSelector st = Some cs \<and> generalView st = Some gv
    \<and> show_axis ea = getValue objs ''enableAxis'' ''show'' (Primitive (PBoolean True))
    \<and> opacity gv = getValue objs ''generalView'' ''opacity'' (Primitive (PNumber (Num 100)))
    \<and> y2trim gv = getValue objs ''generalView'' ''y2trim'' (Primitive (PNumber (Num 120)))
    \<and> solid_color (getValue objs ''colorSelector'' ''fill''
          (Primitive (PString (getColor host ''1'')))) = Inr (color1 cs)
    \<and> solid_color (getValue objs ''colorSelector'' ''fill2''
          (Primitive (PString (getColor host ''2'')))) = Inr (color2 cs)"
  using assms
  by (auto simp: resolveSettings_def defaultEnableAxis_def defaultColorSelector_def
      defaultGeneralView_def split: sum.splits)

lemma getValue_persisted:
  "getValue objs oname pname d =
     (case persisted objs oname pname of None \<Rightarrow> d | Some v \<Rightarrow> v)"
  by (simp add: getValue_def persisted_def split: option.splits)

lemma resolveSettings_no_fill:
  assumes "persisted objs ''colorSelector'' ''fill'' = None
    \<or> persisted objs ''colorSelector'' ''fill2'' = None"
  shows "resolveSettings host objs = Inl TypeError"
  using assms
  by (auto simp: resolveSettings_def getValue_persisted JSError_only split: sum.splits)

lemma resolveSettings_None: "resolveSettings host None = Inl TypeError"
  by (simp add: resolveSettings_def getValue_def)

lemma transformBody_Inr:
  assumes "transformBody js host objs cat dataValue dataValue2 = Inr vm"
  shows "\<exists>st cs dv1 dv2. resolveSettings host objs = Inr st \<and> colorSelector st = Some cs
    \<and> dataValue = Some dv1 \<and> dataValue2 = Some dv2
    \<and> vm = \<lparr>dataPoints = concat (map (\<lambda>j. [firstAxisPoint js host cs cat dv1 j,
                                              secondAxisPoint js host cs cat dv2 j])
                 [0..<max (length (category_values cat)) (length (column_values dv1))]),
             dataMax = maxLocal dv1, dataMax2 = maxLocal dv2, settings = st\<rparr>"
  using assms
  by (auto simp: transformBody_def pointsLoop_Some split: sum.splits option.splits)

lemma transformBody_ok:
  assumes "resolveSettings host objs = Inr st" and "colorSelector st = Some cs"
  shows "transformBody js host objs cat (Some dv1) (Some dv2) =
    Inr \<lparr>dataPoints = concat (map (\<lambda>j. [firstAxisPoint js host cs cat dv1 j,
                                           secondAxisPoint js host cs cat dv2 j])
                 [0..<max (length (category_values cat)) (length (column_values dv1))]),
         dataMax = maxLocal dv1, dataMax2 = maxLocal dv2, settings = st\<rparr>"
  using assms by (simp add: transformBody_def pointsLoop_Some)

lemma transformBody_one_series:
  "transformBody js host objs cat dataValue None = Inl TypeError"
  by (auto simp: transformBody_def pointsLoop_None JSError_only split: sum.splits option.splits)

lemma visualTransform_Inr:
  assumes "visualTransform js host options = Inr vm"
  shows "vm = emptyViewModel
    \<or> (\<exists>objs cat vals st cs dv1 dv2. queryParts options = Some (objs, cat, vals)
         \<and> item vals 0 = Some dv1 \<and> item vals 1 = Some dv2
         \<and> resolveSettings host objs = Inr st \<and> colorSelector st = Some cs
         \<and> vm = \<lparr>dataPoints = concat (map (\<lambda>j. [firstAxisPoint js host cs cat dv1 j,
                                                   secondAxisPoint js host cs cat dv2 j])
                      [0..<max (length (category_values cat)) (length (column_values dv1))]),
                  dataMax = maxLocal dv1, dataMax2 = maxLocal dv2, settings = st\<rparr>)"
proof (cases "queryParts options")
  case None
  then have "visualTransform js host options = Inr emptyViewModel
      \<or> visualTransform js host options = Inl TypeError"
    by (auto simp: queryParts_def visualTransform_def split: option.splits)
  then show ?thesis
    using assms by auto
next
  case (Some parts)
  obtain objs cat vals where p: "parts = (objs, cat, vals)"
    by (cases parts) auto
  have "transformBody js host objs cat (item vals 0) (item vals 1) = Inr vm"
    using assms visualTransform_queryParts [of options objs cat vals js host] Some p by simp
  from transformBody_Inr [OF this] show ?thesis
    using Some p by auto
qed

section \<open>Running the examples, and the structure of update\<close>

lemma example_queryParts:
  "queryParts (exampleQuery objs series) = Some (objs, exampleCategory, series)"
  by (simp add: queryParts_def exampleQuery_def item_def exampleCategory_def)

lemma example_resolveSettings:
  "resolveSettings exampleHost (Some exampleObjects) =
     Inr \<lparr>enableAxis = Some \<lparr>show_axis = Primitive (PBoolean True)\<rparr>,
          colorSelector = Some \<lparr>color1 = ''#111111'', color2 = ''#222222''\<rparr>,
          generalView = Some \<lparr>opacity = Primitive (PNumber (Num 75)),
                              y2trim = Primitive (PNumber (Num 120))\<rparr>\<rparr>"
  by (simp add: resolveSettings_def getValue_def exampleObjects_def defaultEnableAxis_def
      defaultGeneralView_def)

lemma upt_0_2: "[0..<2] = [0, Suc 0]"
  by (simp add: upt_rec numeral_2_eq_2)

lemma example_transform_series:
  "visualTransform exampleRuntime exampleHost (exampleQuery (Some exampleObjects) [s1, s2]) =
    Inr \<lparr>dataPoints = concat (map (\<lambda>j.
             [firstAxisPoint exampleRuntime exampleHost
                \<lparr>color1 = ''#111111'', color2 = ''#222222''\<rparr> exampleCategory s1 j,
              secondAxisPoint exampleRuntime exampleHost
                \<lparr>color1 = ''#111111'', color2 = ''#222222''\<rparr> exampleCategory s2 j])
             [0..<max (length (category_values exampleCategory)) (length (column_values s1))]),
         dataMax = maxLocal s1, dataMax2 = maxLocal s2,
         settings =
           \<lparr>enableAxis = Some \<lparr>show_axis = Primitive (PBoolean True)\<rparr>,
            colorSelector = Some \<lparr>color1 = ''#111111'', color2 = ''#222222''\<rparr>,
            generalView = Some \<lparr>opacity = Primitive (PNumber (Num 75)),
                                y2trim = Primitive (PNumber (Num 120))\<rparr>\<rparr>\<rparr>"
proof -
  have "visualTransform exampleRuntime exampleHost (exampleQuery (Some exampleObjects) [s1, s2]) =
    transformBody exampleRuntime exampleHost (Some exampleObjects) exampleCategory
      (Some s1) (Some s2)"
    by (simp add: visualTransform_queryParts [OF example_queryParts] item_def)
  also have "\<dots> =
    Inr \<lparr>dataPoints = concat (map (\<lambda>j.
             [firstAxisPoint exampleRuntime exampleHost
                \<lparr>color1 = ''#111111'', color2 = ''#222222''\<rparr> exampleCategory s1 j,
              secondAxisPoint exampleRuntime exampleHost
                \<lparr>color1 = ''#111111'', color2 = ''#222222''\<rparr> exampleCategory s2 j])
             [0..<max (length (category_values exampleCategory)) (length (column_values s1))]),
         dataMax = maxLocal s1, dataMax2 = maxLocal s2,
         settings =
           \<lparr>enableAxis = Some \<lparr>show_axis = Primitive (PBoolean True)\<rparr>,
            colorSelector = Some \<lparr>color1 = ''#111111'', color2 = ''#222222''\<rparr>,
            generalView = Some \<lparr>opacity = Primitive (PNumber (Num 75)),
                                y2trim = Primitive (PNumber (Num 120))\<rparr>\<rparr>\<rparr>"
    by (rule transformBody_ok [OF example_resolveSettings]) simp
  finally show ?thesis .
qed

lemma example_visualTransform:
  "visualTransform exampleRuntime exampleHost
      (exampleQuery (Some exampleObjects) [exampleSeries1, exampleSeries2]) =
     Inr \<lparr>dataPoints =
            [\<lparr>point_value = PNumber (Num 40), category = ''A'', vaxis = 1,
              color = ''#111111'', selectionId = SelectionId ''Region'' 0\<rparr>,
             \<lparr>point_value = PNumber (Num 15), category = ''A'', vaxis = 2,
              color = ''#222222'', selectionId = SelectionId ''Region'' 0\<rparr>,
             \<lparr>point_value = PNumber (Num 100), category = ''B'', vaxis = 1,
              color = ''#111111'', selectionId = SelectionId ''Region'' 1\<rparr>,
             \<lparr>point_value = PNumber (Num 50), category = ''B'', vaxis = 2,
              color = ''#222222'', selectionId = SelectionId ''Region'' 1\<rparr>],
          dataMax = PNumber (Num 100), dataMax2 = PNumber (Num 50),
          settings =
            \<lparr>enableAxis = Some \<lparr>show_axis = Primitive (PBoolean True)\<rparr>,
             colorSelector = Some \<lparr>color1 = ''#111111'', color2 = ''#222222''\<rparr>,
             generalView = Some \<lparr>opacity = Primitive (PNumber (Num 75)),
                                 y2trim = Primitive (PNumber (Num 120))\<rparr>\<rparr>\<rparr>"
  by (subst example_transform_series)
    (simp add: upt_0_2 firstAxisPoint_def secondAxisPoint_def at_value_def
      exampleCategory_def exampleSeries1_def exampleSeries2_def exampleHost_def)

lemma example_swapped:
  "visualTransform exampleRuntime exampleHost
      (exampleQuery (Some exampleObjects) [exampleSeries2, exampleSeries1]) =
     Inr exampleSwappedViewModel"
  by (subst example_transform_series)
    (simp add: upt_0_2 firstAxisPoint_def secondAxisPoint_def
      at_value_def exampleCategory_def exampleSeries1_def exampleSeries2_def exampleHost_def
      exampleSwappedViewModel_def)

lemma example_bands:
  "rangeBand (d3_rangeRoundBands [''A'', ''A'', ''B'', ''B''] (Num 0, Num 400) xScalePadding (Num (1 / 5))) = Num 156"
  "bandStart (d3_rangeRoundBands [''A'', ''A'', ''B'', ''B''] (Num 0, Num 400) xScalePadding (Num (1 / 5))) ''A'' = Num 36"
  "bandStart (d3_rangeRoundBands [''A'', ''A'', ''B'', ''B''] (Num 0, Num 400) xScalePadding (Num (1 / 5))) ''B'' = Num 209"
  by code_simp+


lemma update_result:
  fixes js :: JSRuntime and d3 :: D3 and host :: IVisualHost
    and options :: VisualUpdateOptions and this :: BarChart
  assumes vt: "visualTransform js host options = Inr vm"
    and ea: "enableAxis (settings vm) = Some ea"
    and gv: "generalView (settings vm) = Some gv"
  defines "h \<equiv> (if ToBoolean (show_axis ea)
                  then num_sub (height (viewport options)) margins_bottom
                  else height (viewport options))"
  defines "ys \<equiv> \<lparr>scale_domain =
                     (Num 0,
                      num_mul (PrimitiveToNumber js (dataMax vm))
                        (num_sub (Num 2) (num_div (ToNumber js (y2trim gv)) (Num 100)))),
                   scale_range = (h, Num 0)\<rparr>"
  defines "ys2 \<equiv> \<lparr>scale_domain =
                      (Num 0,
                       num_mul (PrimitiveToNumber js (dataMax2 vm))
                         (num_div (ToNumber js (y2trim gv)) (Num 100))),
                    scale_range = (h, Num 0)\<rparr>"
  defines "xs \<equiv> rangeRoundBands d3 (map category (dataPoints vm))
                   (Num 0, width (viewport options)) xScalePadding (Num (2 / 10))"
  shows "update js d3 host options this =
    (None,
     this\<lparr>barChartSettings := Some (settings vm),
          barDataPoints := Some (dataPoints vm),
          svg_size := Some (width (viewport options), height (viewport options)),
          xAxis := Some xs, yAxis := Some ys, yAxis2 := Some ys2,
          bars := map (barRect d3 xs ys ys2 h (num_div (ToNumber js (opacity gv)) (Num 100)))
                    (dataPoints vm),
          clickAllowed := allowInteractions host\<rparr>)"
  by (simp add: update_def vt ea gv Let_def h_def ys_def ys2_def xs_def)

lemma update_completed:
  assumes "update js d3 host options this = (None, st)"
  shows "\<exists>vm ea gv. visualTransform js host options = Inr vm
    \<and> enableAxis (settings vm) = Some ea \<and> generalView (settings vm) = Some gv"
  using assms
  by (auto simp: update_def Let_def split: sum.splits option.splits)

lemma update_guard_path:
  assumes "visualTransform js host options = Inr emptyViewModel"
  shows "update js d3 host options this =
    (Some TypeError,
     this\<lparr>barChartSettings := Some \<lparr>enableAxis = None, colorSelector = None, generalView = None\<rparr>,
          barDataPoints := Some [],
          svg_size := Some (width (viewport options), height (viewport options))\<rparr>)"
  by (simp add: update_def assms emptyViewModel_def Let_def)

lemma update_transform_error:
  assumes "visualTransform js host options = Inl e"
  shows "update js d3 host options this = (Some e, this)"
  by (simp add: update_def assms)

lemma example_viewport [simp]:
  "viewport (exampleQuery objs series) = \<lparr>width = Num 400, height = Num 125\<rparr>"
  by (simp add: exampleQuery_def)

lemma example_update:
  "update exampleRuntime exampleD3 exampleHost exampleOptions constructor = (None, exampleChart)"
  by (simp add: exampleChart_def update_def exampleOptions_def example_visualTransform Let_def)

lemma example_scales:
  "yAxis exampleChart = Some \<lparr>scale_domain = (Num 0, Num 80), scale_range = (Num 100, Num 0)\<rparr>"
  "yAxis2 exampleChart = Some \<lparr>scale_domain = (Num 0, Num 60), scale_range = (Num 100, Num 0)\<rparr>"
  by (simp_all add: exampleChart_def update_def exampleOptions_def example_visualTransform Let_def
      margins_bottom_def)

lemma example_transform: "visualTransform exampleRuntime exampleHost exampleOptions = Inr exampleViewModel"
  by (simp add: exampleOptions_def example_visualTransform exampleViewModel_def)

lemma visualTransform_dataViews_only:
  "dataViews o1 = dataViews o2 \<Longrightarrow> visualTransform js host o1 = visualTransform js host o2"
  by (simp add: visualTransform_def)

lemma point_nth:
  assumes vt: "visualTransform js host options = Inr vm" and k: "k < length (dataPoints vm)"
  shows "\<exists>cat. firstCategory options = Some cat
    \<and> selectionId (dataPoints vm ! k) = withCategory host cat (k div 2)
    \<and> vaxis (dataPoints vm ! k) = (if even k then 1 else 2)"
proof -
  from visualTransform_Inr [OF vt] k obtain objs cat vals st cs dv1 dv2
    where qp: "queryParts options = Some (objs, cat, vals)"
      and vm: "vm = \<lparr>dataPoints = concat (map (\<lambda>j. [firstAxisPoint js host cs cat dv1 j,
                                                   secondAxisPoint js host cs cat dv2 j])
                      [0..<max (length (category_values cat)) (length (column_values dv1))]),
                  dataMax = maxLocal dv1, dataMax2 = maxLocal dv2, settings = st\<rparr>"
    by (auto simp: emptyViewModel_def)
  let ?n = "max (length (category_values cat)) (length (column_values dv1))"
  have kn: "k < 2 * ?n"
    using k vm by (simp add: length_pairs)
  have "dataPoints vm ! k =
      (if even k then firstAxisPoint js host cs cat dv1 (k div 2)
       else secondAxisPoint js host cs cat dv2 (k div 2))"
    using nth_pairs_any [OF kn, where f = "firstAxisPoint js host cs cat dv1"
        and g = "secondAxisPoint js host cs cat dv2"] vm by simp
  then show ?thesis
    using queryParts_firstCategory [OF qp]
    by (simp add: firstAxisPoint_def secondAxisPoint_def)
qed

section \<open>Selection identifiers\<close>

text \<open>
  C9. For every index \<open>i\<close> the loop of \<open>visualTransform\<close> processed, the point at
  position \<open>2 * i\<close> (first axis) and the point at position \<open>2 * i + 1\<close> (second axis)
  carry the identifier the host built from the same category series and the same index
  \<open>i\<close>: the two bars of one category are one selectable entity.
\<close>

theorem paired_points_share_selectionId:
  assumes "visualTransform js host options = Inr vm"
    and "2 * i + 1 < length (dataPoints vm)"
  shows "\<exists>cat. firstCategory options = Some cat
    \<and> vaxis (dataPoints vm ! (2 * i)) = 1
    \<and> vaxis (dataPoints vm ! (2 * i + 1)) = 2
    \<and> selectionId (dataPoints vm ! (2 * i)) = withCategory host cat i
    \<and> selectionId (dataPoints vm ! (2 * i + 1)) = withCategory host cat i
    \<and> selectionId (dataPoints vm ! (2 * i)) = selectionId (dataPoints vm ! (2 * i + 1))"
proof -
  have a: "2 * i < length (dataPoints vm)"
    using assms(2) by simp
  from point_nth [OF assms(1) a] point_nth [OF assms(1) assms(2)]
  show ?thesis
    by auto
qed

text \<open>The witness: the second category (\<open>i = 1\<close>) of the worked example.\<close>

theorem paired_points_share_selectionId_witness:
  "visualTransform exampleRuntime exampleHost exampleOptions = Inr exampleViewModel
   \<and> 2 * 1 + 1 < length (dataPoints exampleViewModel)
   \<and> firstCategory exampleOptions = Some exampleCategory
   \<and> selectionId (dataPoints exampleViewModel ! (2 * 1)) = SelectionId ''Region'' 1
   \<and> selectionId (dataPoints exampleViewModel ! (2 * 1 + 1)) = SelectionId ''Region'' 1
   \<and> vaxis (dataPoints exampleViewModel ! (2 * 1)) = 1
   \<and> vaxis (dataPoints exampleViewModel ! (2 * 1 + 1)) = 2"
proof -
  have len: "2 * 1 + 1 < length (dataPoints exampleViewModel)"
    by (simp add: exampleViewModel_def)
  have fc: "firstCategory exampleOptions = Some exampleCategory"
    by (simp add: exampleOptions_def queryParts_firstCategory [OF example_queryParts])
  from paired_points_share_selectionId [OF example_transform len] fc
  have "vaxis (dataPoints exampleViewModel ! (2 * 1)) = 1
    \<and> vaxis (dataPoints exampleViewModel ! (2 * 1 + 1)) = 2
    \<and> selectionId (dataPoints exampleViewModel ! (2 * 1)) = withCategory exampleHost exampleCategory 1
    \<and> selectionId (dataPoints exampleViewModel ! (2 * 1 + 1)) = withCategory exampleHost exampleCategory 1"
    by auto
  then show ?thesis
    using example_transform len fc
    by (simp add: exampleHost_def exampleCategory_def)
qed

section \<open>Determinism\<close>

text \<open>
  C8. The host's palette and identifier builder are functions of their arguments here,
  as the claim supposes. Two calls of \<open>visualTransform\<close> whose inputs carry the same
  query result (whatever the viewport) that both return, return data points that agree
  position by position in value, category, axis index, colour and selection identifier;
  and two calls on the same category series return, at every position both have, equal
  selection identifiers, whatever the values and settings.
\<close>

theorem visualTransform_deterministic:
  assumes "visualTransform js host o1 = Inr vm1"
    and "visualTransform js host o2 = Inr vm2"
  shows "(dataViews o1 = dataViews o2 \<longrightarrow>
           length (dataPoints vm1) = length (dataPoints vm2)
           \<and> (\<forall>k<length (dataPoints vm1).
                 point_value (dataPoints vm1 ! k) = point_value (dataPoints vm2 ! k)
                 \<and> category (dataPoints vm1 ! k) = category (dataPoints vm2 ! k)
                 \<and> vaxis (dataPoints vm1 ! k) = vaxis (dataPoints vm2 ! k)
                 \<and> color (dataPoints vm1 ! k) = color (dataPoints vm2 ! k)
                 \<and> selectionId (dataPoints vm1 ! k) = selectionId (dataPoints vm2 ! k)))
       \<and> (firstCategory o1 = firstCategory o2 \<longrightarrow>
           (\<forall>k. k < length (dataPoints vm1) \<and> k < length (dataPoints vm2) \<longrightarrow>
                 selectionId (dataPoints vm1 ! k) = selectionId (dataPoints vm2 ! k)))"
proof -
  have same: "vm1 = vm2" if "dataViews o1 = dataViews o2"
    using assms visualTransform_dataViews_only [OF that, of js host] by simp
  have ids: "selectionId (dataPoints vm1 ! k) = selectionId (dataPoints vm2 ! k)"
    if "firstCategory o1 = firstCategory o2"
      and "k < length (dataPoints vm1)" and "k < length (dataPoints vm2)" for k
    using point_nth [OF assms(1) that(2)] point_nth [OF assms(2) that(3)] that(1) by auto
  show ?thesis
    using same ids by auto
qed

text \<open>
  The witness: the worked example, the same query under another viewport, and the same
  category series with the two value series swapped.
\<close>

theorem visualTransform_deterministic_witness:
  "visualTransform exampleRuntime exampleHost exampleOptions = Inr exampleViewModel
   \<and> visualTransform exampleRuntime exampleHost
        (exampleOptions\<lparr>viewport := \<lparr>width = Num 10, height = Num 10\<rparr>\<rparr>) = Inr exampleViewModel
   \<and> visualTransform exampleRuntime exampleHost
        (exampleQuery (Some exampleObjects) [exampleSeries2, exampleSeries1])
       = Inr exampleSwappedViewModel
   \<and> point_value (dataPoints exampleViewModel ! 0) = PNumber (Num 40)
   \<and> point_value (dataPoints exampleSwappedViewModel ! 0) = PNumber (Num 15)
   \<and> selectionId (dataPoints exampleViewModel ! 0)
       = selectionId (dataPoints exampleSwappedViewModel ! 0)
   \<and> selectionId (dataPoints exampleViewModel ! 3)
       = selectionId (dataPoints exampleSwappedViewModel ! 3)"
proof -
  have same: "visualTransform exampleRuntime exampleHost
        (exampleOptions\<lparr>viewport := \<lparr>width = Num 10, height = Num 10\<rparr>\<rparr>) = Inr exampleViewModel"
    using visualTransform_dataViews_only [of "exampleOptions\<lparr>viewport := \<lparr>width = Num 10, height = Num 10\<rparr>\<rparr>"
        exampleOptions exampleRuntime exampleHost] example_transform
    by simp
  have fc: "firstCategory exampleOptions
      = firstCategory (exampleQuery (Some exampleObjects) [exampleSeries2, exampleSeries1])"
    by (simp add: exampleOptions_def queryParts_firstCategory [OF example_queryParts])
  note t = visualTransform_deterministic [OF example_transform example_swapped]
  from t fc have ids: "\<forall>k. k < length (dataPoints exampleViewModel)
        \<and> k < length (dataPoints exampleSwappedViewModel) \<longrightarrow>
      selectionId (dataPoints exampleViewModel ! k)
        = selectionId (dataPoints exampleSwappedViewModel ! k)"
    by blast
  have l: "0 < length (dataPoints exampleViewModel) \<and> 0 < length (dataPoints exampleSwappedViewModel)"
    "3 < length (dataPoints exampleViewModel) \<and> 3 < length (dataPoints exampleSwappedViewModel)"
    by (simp_all add: exampleViewModel_def exampleSwappedViewModel_def)
  have v: "point_value (dataPoints exampleViewModel ! 0) = PNumber (Num 40)"
    "point_value (dataPoints exampleSwappedViewModel ! 0) = PNumber (Num 15)"
    by (simp_all add: exampleViewModel_def exampleSwappedViewModel_def)
  show ?thesis
    using example_transform same example_swapped v ids l by blast
qed

section \<open>What a completed update leaves behind\<close>

lemma update_bars:
  assumes "update js d3 host options this = (None, st)"
  obtains vm ea gv xs ys ys2 h
  where "visualTransform js host options = Inr vm"
    and "enableAxis (settings vm) = Some ea"
    and "generalView (settings vm) = Some gv"
    and "barChartSettings st = Some (settings vm)"
    and "barDataPoints st = Some (dataPoints vm)"
    and "xAxis st = Some xs" and "yAxis st = Some ys" and "yAxis2 st = Some ys2"
    and "scale_range ys = (h, Num 0)"
    and "clickAllowed st = allowInteractions host"
    and "bars st = map (barRect d3 xs ys ys2 h (num_div (ToNumber js (opacity gv)) (Num 100)))
                    (dataPoints vm)"
proof -
  from update_completed [OF assms] obtain vm ea gv
    where vt: "visualTransform js host options = Inr vm"
      and ea: "enableAxis (settings vm) = Some ea"
      and gv: "generalView (settings vm) = Some gv"
    by blast
  show ?thesis
    using assms update_result [OF vt ea gv, of d3 this] vt ea gv
    by (intro that [of vm ea gv]) auto
qed

text \<open>
  An \<open>update\<close> runs to its end exactly when the transform returns settings with their
  parts; it does so on every input that passes the guard with two value series and
  persisted fills.
\<close>

lemma update_completes_iff:
  "(\<exists>st. update js d3 host options this = (None, st)) \<longleftrightarrow>
   (\<exists>vm ea gv. visualTransform js host options = Inr vm
      \<and> enableAxis (settings vm) = Some ea \<and> generalView (settings vm) = Some gv)"
proof
  assume "\<exists>st. update js d3 host options this = (None, st)"
  then show "\<exists>vm ea gv. visualTransform js host options = Inr vm
      \<and> enableAxis (settings vm) = Some ea \<and> generalView (settings vm) = Some gv"
    using update_completed by blast
next
  assume "\<exists>vm ea gv. visualTransform js host options = Inr vm
      \<and> enableAxis (settings vm) = Some ea \<and> generalView (settings vm) = Some gv"
  then obtain vm ea gv where "visualTransform js host options = Inr vm"
    and "enableAxis (settings vm) = Some ea" and "generalView (settings vm) = Some gv"
    by blast
  from update_result [OF this, of d3 this] show "\<exists>st. update js d3 host options this = (None, st)"
    by blast
qed

lemma update_completes:
  assumes "queryParts options = Some (objs, cat, vals)"
    and "item vals 0 = Some dv1" and "item vals 1 = Some dv2"
    and "resolveSettings host objs = Inr st"
  shows "\<exists>st'. update js d3 host options this = (None, st')"
proof -
  from resolveSettings_Inr [OF assms(4)] obtain ea cs gv
    where p: "enableAxis st = Some ea" "colorSelector st = Some cs" "generalView st = Some gv"
    by blast
  have "visualTransform js host options =
      Inr \<lparr>dataPoints = concat (map (\<lambda>j. [firstAxisPoint js host cs cat dv1 j,
                                             secondAxisPoint js host cs cat dv2 j])
                 [0..<max (length (category_values cat)) (length (column_values dv1))]),
           dataMax = maxLocal dv1, dataMax2 = maxLocal dv2, settings = st\<rparr>"
    using visualTransform_queryParts [OF assms(1), of js host]
      transformBody_ok [OF assms(4) p(2), of js cat dv1 dv2] assms(2,3)
    by simp
  then show ?thesis
    using p update_completes_iff [of js d3 host options this] by auto
qed

section \<open>The two value scales\<close>

text \<open>
  An \<open>update\<close> that runs to its end builds both value scales (lines 246 to 251) with
  range \<open>[height, 0]\<close>, where \<open>height\<close> is the viewport height less the bottom margin
  when the axis is shown, and with domains that start at \<open>0\<close>. With \<open>dataMax = 100\<close>
  and \<open>y2trim = 120\<close> the primary domain is \<open>[0, 80]\<close>, with \<open>dataMax2 = 50\<close> and
  \<open>y2trim = 120\<close> the secondary domain is \<open>[0, 60]\<close>; at these values the program's
  binary64 arithmetic and the exact arithmetic of the model agree.
\<close>

lemma completed_update_scales:
  assumes "update js d3 host options this = (None, st)"
  shows "\<exists>vm ea gv h ys ys2.
      visualTransform js host options = Inr vm
    \<and> enableAxis (settings vm) = Some ea \<and> generalView (settings vm) = Some gv
    \<and> h = (if ToBoolean (show_axis ea)
            then num_sub (height (viewport options)) margins_bottom
            else height (viewport options))
    \<and> yAxis st = Some ys \<and> yAxis2 st = Some ys2
    \<and> scale_range ys = (h, Num 0) \<and> scale_range ys2 = (h, Num 0)
    \<and> fst (scale_domain ys) = Num 0 \<and> fst (scale_domain ys2) = Num 0
    \<and> (dataMax vm = PNumber (Num 100) \<and> y2trim gv = Primitive (PNumber (Num 120)) \<longrightarrow>
           scale_domain ys = (Num 0, Num 80))
    \<and> (dataMax2 vm = PNumber (Num 50) \<and> y2trim gv = Primitive (PNumber (Num 120)) \<longrightarrow>
           scale_domain ys2 = (Num 0, Num 60))"
proof -
  from update_completed [OF assms] obtain vm ea gv
    where vt: "visualTransform js host options = Inr vm"
      and ea: "enableAxis (settings vm) = Some ea"
      and gv: "generalView (settings vm) = Some gv"
    by blast
  have st: "yAxis st = Some \<lparr>scale_domain =
                          (Num 0,
                           num_mul (PrimitiveToNumber js (dataMax vm))
                             (num_sub (Num 2) (num_div (ToNumber js (y2trim gv)) (Num 100)))),
                        scale_range = (if ToBoolean (show_axis ea)
            then num_sub (height (viewport options)) margins_bottom
            else height (viewport options), Num 0)\<rparr>"
    "yAxis2 st = Some \<lparr>scale_domain =
                           (Num 0,
                            num_mul (PrimitiveToNumber js (dataMax2 vm))
                              (num_div (ToNumber js (y2trim gv)) (Num 100))),
                         scale_range = (if ToBoolean (show_axis ea)
            then num_sub (height (viewport options)) margins_bottom
            else height (viewport options), Num 0)\<rparr>"
    using assms update_result [OF vt ea gv, of d3 this] by auto
  show ?thesis
    using vt ea gv st by simp
qed

lemma selectionResolved_length:
  "length (bars (selectionResolved k ids this)) = length (bars this)"
  by (simp add: selectionResolved_def Let_def)

lemma selectionResolved_opacity:
  assumes "j < length (bars this)"
  shows "attr_fill_opacity (bars (selectionResolved k ids this) ! j) =
    (if j = k then solidOpacity
     else if length ids > 0 then transparentOpacity else solidOpacity)"
  using assms by (simp add: selectionResolved_def Let_def nth_list_update)



section \<open>Clicks\<close>

text \<open>
  C6. After an \<open>update\<close> under a host that allows interactions, a click on bar
  \<open>k\<close>, the bar of data point \<open>P\<close>, asks the selection manager for \<open>P.selectionId\<close>;
  when the promise resolves with the one-element list of that identifier, bar \<open>k\<close> has
  fill-opacity \<open>1\<close> and every other bar has fill-opacity \<open>0.5\<close>.
\<close>

theorem click_leaves_one_bar_solid:
  assumes "update js d3 host options this0 = (None, this)"
    and "allowInteractions host"
    and "k < length (bars this)"
  shows "(\<exists>dps. barDataPoints this = Some dps \<and> length dps = length (bars this)
            \<and> datum (bars this ! k) = dps ! k)
    \<and> barClick this k = Some (selectionId (datum (bars this ! k)))
    \<and> length (bars (selectionResolved k [selectionId (datum (bars this ! k))] this))
        = length (bars this)
    \<and> (\<forall>j<length (bars this).
          attr_fill_opacity
            (bars (selectionResolved k [selectionId (datum (bars this ! k))] this) ! j)
          = (if j = k then Num 1 else Num (1 / 2)))"
  using assms(1)
proof (rule update_bars)
  fix vm gv xs ys ys2 h
  assume dps: "barDataPoints this = Some (dataPoints vm)"
    and ca: "clickAllowed this = allowInteractions host"
    and bs: "bars this = map (barRect d3 xs ys ys2 h
                 (num_div (ToNumber js (opacity gv)) (Num 100))) (dataPoints vm)"
  have 1: "\<exists>dps. barDataPoints this = Some dps \<and> length dps = length (bars this)
            \<and> datum (bars this ! k) = dps ! k"
    using dps bs assms(3) by (simp add: barRect_def)
  have 2: "barClick this k = Some (selectionId (datum (bars this ! k)))"
    using ca assms(2,3) by (simp add: barClick_def item_def)
  show ?thesis
    using 1 2 selectionResolved_length [of k _ this]
    by (simp add: selectionResolved_opacity solidOpacity_def transparentOpacity_def)
qed

lemma example_chart_bars:
  "length (bars exampleChart) = 4"
  "map (selectionId \<circ> datum) (bars exampleChart) =
     [SelectionId ''Region'' 0, SelectionId ''Region'' 0,
      SelectionId ''Region'' 1, SelectionId ''Region'' 1]"
  "map (vaxis \<circ> datum) (bars exampleChart) = [1, 2, 1, 2]"
  by (simp_all add: exampleChart_def update_def exampleOptions_def example_visualTransform Let_def
      barRect_def)

text \<open>The witness: a click on the second bar of the worked example.\<close>

theorem click_leaves_one_bar_solid_witness:
  "update exampleRuntime exampleD3 exampleHost exampleOptions constructor = (None, exampleChart)
   \<and> allowInteractions exampleHost
   \<and> length (bars exampleChart) = 4
   \<and> barClick exampleChart 1 = Some (SelectionId ''Region'' 0)
   \<and> attr_fill_opacity (bars (selectionResolved 1 [SelectionId ''Region'' 0] exampleChart) ! 0)
       = Num (1 / 2)
   \<and> attr_fill_opacity (bars (selectionResolved 1 [SelectionId ''Region'' 0] exampleChart) ! 1)
       = Num 1
   \<and> attr_fill_opacity (bars (selectionResolved 1 [SelectionId ''Region'' 0] exampleChart) ! 2)
       = Num (1 / 2)
   \<and> attr_fill_opacity (bars (selectionResolved 1 [SelectionId ''Region'' 0] exampleChart) ! 3)
       = Num (1 / 2)"
proof -
  have ai: "allowInteractions exampleHost"
    by (simp add: exampleHost_def)
  have k: "1 < length (bars exampleChart)"
    by (simp add: example_chart_bars)
  have "(selectionId \<circ> datum) (bars exampleChart ! 1) = SelectionId ''Region'' 0"
    using nth_map [OF k, of "selectionId \<circ> datum"] by (simp add: example_chart_bars)
  then have sid: "selectionId (datum (bars exampleChart ! 1)) = SelectionId ''Region'' 0"
    by simp
  note t = click_leaves_one_bar_solid [OF example_update ai k, unfolded sid]
  from t have c: "barClick exampleChart 1 = Some (SelectionId ''Region'' 0)"
    by blast
  from t have op: "\<forall>j<length (bars exampleChart). attr_fill_opacity
        (bars (selectionResolved 1 [SelectionId ''Region'' 0] exampleChart) ! j)
      = (if j = 1 then Num 1 else Num (1 / 2))"
    by blast
  have "(0::nat) < 4" "(1::nat) < 4" "(2::nat) < 4" "(3::nat) < 4"
    by simp_all
  then show ?thesis
    using example_update ai c op by (simp add: example_chart_bars(1))
qed


lemma example_bars_list:
  "bars exampleChart =
     [\<lparr>datum = \<lparr>point_value = PNumber (Num 40), category = ''A'', vaxis = 1,
                 color = ''#111111'', selectionId = SelectionId ''Region'' 0\<rparr>,
        attr_width = Num 156, attr_height = Num 50, attr_y = Num 50, attr_x = Num 36,
        attr_fill = ''#111111'', attr_fill_opacity = Num (3 / 4)\<rparr>,
      \<lparr>datum = \<lparr>point_value = PNumber (Num 15), category = ''A'', vaxis = 2,
                 color = ''#222222'', selectionId = SelectionId ''Region'' 0\<rparr>,
        attr_width = Num 78, attr_height = Num 25, attr_y = Num 75, attr_x = Num 75,
        attr_fill = ''#222222'', attr_fill_opacity = Num (3 / 4)\<rparr>,
      \<lparr>datum = \<lparr>point_value = PNumber (Num 100), category = ''B'', vaxis = 1,
                 color = ''#111111'', selectionId = SelectionId ''Region'' 1\<rparr>,
        attr_width = Num 156, attr_height = Num 125, attr_y = Num (- 25), attr_x = Num 209,
        attr_fill = ''#111111'', attr_fill_opacity = Num (3 / 4)\<rparr>,
      \<lparr>datum = \<lparr>point_value = PNumber (Num 50), category = ''B'', vaxis = 2,
                 color = ''#222222'', selectionId = SelectionId ''Region'' 1\<rparr>,
        attr_width = Num 78, attr_height = Num (250 / 3), attr_y = Num (50 / 3), attr_x = Num 248,
        attr_fill = ''#222222'', attr_fill_opacity = Num (3 / 4)\<rparr>]"
  by (simp add: exampleChart_def update_def exampleOptions_def example_visualTransform Let_def
      margins_bottom_def barRect_def exampleD3_def d3_linear_def example_bands)

lemma example_settings:
  "enableAxis (settings exampleViewModel) = Some \<lparr>show_axis = Primitive (PBoolean True)\<rparr>"
  "generalView (settings exampleViewModel) =
     Some \<lparr>opacity = Primitive (PNumber (Num 75)), y2trim = Primitive (PNumber (Num 120))\<rparr>"
  by (simp_all add: exampleViewModel_def)

lemma example_chart_state:
  "barChartSettings exampleChart = Some (settings exampleViewModel)"
  "barDataPoints exampleChart = Some (dataPoints exampleViewModel)"
  "clickAllowed exampleChart = allowInteractions exampleHost"
  "xAxis exampleChart =
     Some (rangeRoundBands exampleD3 (map category (dataPoints exampleViewModel))
            (Num 0, width (viewport exampleOptions)) xScalePadding (Num (2 / 10)))"
  by (simp_all add: exampleChart_def update_result [OF example_transform example_settings])

lemma example_xAxis:
  "xAxis exampleChart =
     Some (d3_rangeRoundBands [''A'', ''A'', ''B'', ''B''] (Num 0, Num 400)
            xScalePadding (Num (1 / 5)))"
  by (simp add: example_chart_state exampleD3_def exampleViewModel_def exampleOptions_def)



section \<open>The bars\<close>

text \<open>
  C3, as the code has it. In an \<open>update\<close> that runs to its end there is one bar per
  data point. Where the band width, the band start and the two scale values of the
  point are numbers: a bar of axis index 1 has width = bandwidth,
  height = height - scale1(value), y = scale1(value), x = bandStart; a bar of axis index
  2 has width = bandwidth / 2, height = height - scale2(value), y = scale2(value),
  x = bandStart + bandwidth / 4. Both kinds of bar reach from their scale value down to
  the bottom edge \<open>height\<close>; every data point has axis index 1 or 2.
\<close>

theorem bar_attributes:
  assumes "update js d3 host options this = (None, st)"
    and "barDataPoints st = Some dps" and "k < length dps"
    and "xAxis st = Some xs" and "yAxis st = Some ys" and "yAxis2 st = Some ys2"
    and "rangeBand xs = Num bw" and "bandStart xs (category (dps ! k)) = Num bs"
    and "linear d3 ys (point_value (dps ! k)) = Num s1"
    and "linear d3 ys2 (point_value (dps ! k)) = Num s2"
    and "scale_range ys = (Num hh, Num 0)"
  shows "k < length (bars st) \<and> datum (bars st ! k) = dps ! k
    \<and> (vaxis (dps ! k) = 1 \<or> vaxis (dps ! k) = 2)
    \<and> (vaxis (dps ! k) = 1 \<longrightarrow>
          attr_width (bars st ! k) = Num bw
        \<and> attr_height (bars st ! k) = Num (hh - s1)
        \<and> attr_y (bars st ! k) = Num s1
        \<and> attr_x (bars st ! k) = Num bs)
    \<and> (vaxis (dps ! k) = 2 \<longrightarrow>
          attr_width (bars st ! k) = Num (bw / 2)
        \<and> attr_height (bars st ! k) = Num (hh - s2)
        \<and> attr_y (bars st ! k) = Num s2
        \<and> attr_x (bars st ! k) = Num (bs + bw / 4))"
  using assms(1)
proof (rule update_bars)
  fix vm xs' ys' ys2' h gv
  assume vt: "visualTransform js host options = Inr vm"
    and dp: "barDataPoints st = Some (dataPoints vm)"
    and ax: "xAxis st = Some xs'" "yAxis st = Some ys'" "yAxis2 st = Some ys2'"
    and sr: "scale_range ys' = (h, Num 0)"
    and bs: "bars st = map (barRect d3 xs' ys' ys2' h
               (num_div (ToNumber js (opacity gv)) (Num 100))) (dataPoints vm)"
  have eq: "dps = dataPoints vm" "xs' = xs" "ys' = ys" "ys2' = ys2" "h = Num hh"
    using dp ax sr assms by simp_all
  have k: "k < length (dataPoints vm)"
    using assms(3) eq by simp
  have ax12: "vaxis (dps ! k) = 1 \<or> vaxis (dps ! k) = 2"
    using point_nth [OF vt k] eq by (auto split: if_splits)
  have r: "bars st ! k = barRect d3 xs ys ys2 (Num hh)
             (num_div (ToNumber js (opacity gv)) (Num 100)) (dps ! k)"
    using bs k eq by simp
  show ?thesis
    using k eq ax12 bs assms(7-10)
    by (auto simp: r barRect_def)
qed

text \<open>The witness: the second bar of the worked example, a bar of axis index 2.\<close>

lemma example_points:
  "length (dataPoints exampleViewModel) = 4"
  "category (dataPoints exampleViewModel ! 1) = ''A''"
  "point_value (dataPoints exampleViewModel ! 1) = PNumber (Num 15)"
  "vaxis (dataPoints exampleViewModel ! 1) = 2"
  by (simp_all add: exampleViewModel_def)

lemma example_linear_values:
  "linear exampleD3 \<lparr>scale_domain = (Num 0, Num 80), scale_range = (Num 100, Num 0)\<rparr>
     (PNumber (Num 15)) = Num (325 / 4)"
  "linear exampleD3 \<lparr>scale_domain = (Num 0, Num 60), scale_range = (Num 100, Num 0)\<rparr>
     (PNumber (Num 15)) = Num 75"
  by (simp_all add: exampleD3_def d3_linear_def Let_def)

theorem bar_attributes_witness:
  "update exampleRuntime exampleD3 exampleHost exampleOptions constructor = (None, exampleChart)
   \<and> barDataPoints exampleChart = Some (dataPoints exampleViewModel)
   \<and> vaxis (dataPoints exampleViewModel ! 1) = 2
   \<and> datum (bars exampleChart ! 1) = dataPoints exampleViewModel ! 1
   \<and> attr_width (bars exampleChart ! 1) = Num (156 / 2)
   \<and> attr_height (bars exampleChart ! 1) = Num (100 - 75)
   \<and> attr_y (bars exampleChart ! 1) = Num 75
   \<and> attr_x (bars exampleChart ! 1) = Num (36 + 156 / 4)"
proof -
  have k: "1 < length (dataPoints exampleViewModel)"
    by (simp add: example_points)
  have rb: "rangeBand (d3_rangeRoundBands [''A'', ''A'', ''B'', ''B''] (Num 0, Num 400)
            xScalePadding (Num (1 / 5))) = Num 156"
    by (rule example_bands)
  have bs: "bandStart (d3_rangeRoundBands [''A'', ''A'', ''B'', ''B''] (Num 0, Num 400)
            xScalePadding (Num (1 / 5))) (category (dataPoints exampleViewModel ! 1)) = Num 36"
    by (simp add: exampleViewModel_def example_bands)
  have s1: "linear exampleD3 \<lparr>scale_domain = (Num 0, Num 80), scale_range = (Num 100, Num 0)\<rparr>
     (point_value (dataPoints exampleViewModel ! 1)) = Num (325 / 4)"
    by (simp add: exampleViewModel_def example_linear_values)
  have s2: "linear exampleD3 \<lparr>scale_domain = (Num 0, Num 60), scale_range = (Num 100, Num 0)\<rparr>
     (point_value (dataPoints exampleViewModel ! 1)) = Num 75"
    by (simp add: exampleViewModel_def example_linear_values)
  have sr: "scale_range \<lparr>scale_domain = (Num 0, Num 80), scale_range = (Num 100, Num 0)\<rparr>
      = (Num 100, Num 0)"
    by simp
  note t = bar_attributes [OF example_update example_chart_state(2) k example_xAxis
      example_scales(1) example_scales(2) rb bs s1 s2 sr]
  then show ?thesis
    using example_update example_chart_state(2) example_points(4) by simp
qed

text \<open>
  The claim as the spec words it gives a bar of axis index 2 the height scale2(value)
  and anchors it to the top. In the worked example the second bar has scale2(value) = 75
  in a plot 100 high: its height is 25, not 75, and it starts at y = 75, not at the top.
\<close>

theorem second_axis_bar_counterexample:
  "update exampleRuntime exampleD3 exampleHost exampleOptions constructor = (None, exampleChart)
   \<and> vaxis (datum (bars exampleChart ! 1)) = 2
   \<and> yAxis2 exampleChart =
       Some \<lparr>scale_domain = (Num 0, Num 60), scale_range = (Num 100, Num 0)\<rparr>
   \<and> linear exampleD3 \<lparr>scale_domain = (Num 0, Num 60), scale_range = (Num 100, Num 0)\<rparr>
        (point_value (datum (bars exampleChart ! 1))) = Num 75
   \<and> attr_height (bars exampleChart ! 1) = Num 25
   \<and> attr_y (bars exampleChart ! 1) = Num 75
   \<and> attr_height (bars exampleChart ! 1)
       \<noteq> linear exampleD3 \<lparr>scale_domain = (Num 0, Num 60), scale_range = (Num 100, Num 0)\<rparr>
            (point_value (datum (bars exampleChart ! 1)))"
  by (simp add: example_update example_scales example_bars_list example_linear_values)

section \<open>Inputs on which visualTransform raises\<close>

lemma visualTransform_no_parts:
  assumes "queryParts options = None"
  shows "visualTransform js host options = Inr emptyViewModel
    \<or> visualTransform js host options = Inl TypeError"
  using assms by (auto simp: queryParts_def visualTransform_def split: option.splits)

lemma queryParts_objects:
  assumes "queryParts options = Some (objs, cat, vals)"
  shows "\<exists>dvs dv. dataViews options = Some dvs \<and> item dvs 0 = Some dv
    \<and> objs = objects (metadata dv)"
  using assms by (auto simp: queryParts_def split: option.splits)

lemma transformBody_settings_error:
  assumes "resolveSettings host objs = Inl e"
  shows "transformBody js host objs cat dataValue dataValue2 = Inl e"
  using assms by (simp add: transformBody_def)

lemma visualTransform_points:
  assumes qp: "queryParts options = Some (objs, cat, vals)"
    and v0: "item vals 0 = Some dv1" and v1: "item vals 1 = Some dv2"
    and rs: "resolveSettings host objs = Inr st"
    and n: "length (category_values cat) = n" "length (column_values dv1) = n"
      "length (column_values dv2) = n"
  shows "\<exists>vm cs. visualTransform js host options = Inr vm
    \<and> colorSelector st = Some cs \<and> settings vm = st
    \<and> length (dataPoints vm) = 2 * n
    \<and> (\<forall>i<n.
          dataPoints vm ! (2 * i) =
            \<lparr>point_value = column_values dv1 ! i,
             category = stringify js (category_values cat ! i),
             vaxis = 1, color = color1 cs, selectionId = withCategory host cat i\<rparr>
        \<and> dataPoints vm ! (2 * i + 1) =
            \<lparr>point_value = column_values dv2 ! i,
             category = stringify js (category_values cat ! i),
             vaxis = 2, color = color2 cs, selectionId = withCategory host cat i\<rparr>)"
proof -
  from resolveSettings_Inr [OF rs] obtain cs where cs: "colorSelector st = Some cs"
    by blast
  let ?f = "firstAxisPoint js host cs cat dv1"
  let ?g = "secondAxisPoint js host cs cat dv2"
  have vt: "visualTransform js host options =
      Inr \<lparr>dataPoints = concat (map (\<lambda>j. [?f j, ?g j]) [0..<n]),
           dataMax = maxLocal dv1, dataMax2 = maxLocal dv2, settings = st\<rparr>"
    using visualTransform_queryParts [OF qp, of js host] transformBody_ok [OF rs cs, of js cat dv1 dv2]
      v0 v1 n by simp
  have pts: "concat (map (\<lambda>j. [?f j, ?g j]) [0..<n]) ! (2 * i) = ?f i
      \<and> concat (map (\<lambda>j. [?f j, ?g j]) [0..<n]) ! (2 * i + 1) = ?g i" if "i < n" for i
    using nth_pairs [OF that, of ?f ?g] by simp
  show ?thesis
    using vt cs pts n
    by (simp add: length_pairs firstAxisPoint_def secondAxisPoint_def at_value_def)
qed

text \<open>
  C1 (the code breaks the claim). The claim: whenever the query result, its categorical
  section, the category series, the category source or either value series is absent,
  \<open>visualTransform\<close> returns the empty view model and never raises. The guard of lines
  85 to 91 does so when \<open>dataViews\<close>, \<open>dataViews[0]\<close>, its categorical section,
  \<open>categories\<close>, the source of the first category or the array \<open>values\<close> is absent
  (\<open>visualTransform_guard\<close>). But it tests the array of value series, not the series:
  an input that passes the guard with fewer than two value series raises a
  \<open>TypeError\<close>, at \<open>dataValue.values\<close> when there is none, at
  \<open>dataValue2.values[i]\<close> or \<open>dataValue2.maxLocal\<close> when there is one.
\<close>

theorem transform_raises_on_missing_series:
  assumes "queryParts options = Some (objs, cat, vals)" and "length vals < 2"
  shows "visualTransform js host options = Inl TypeError"
proof -
  have "item vals 1 = None"
    using assms(2) by (simp add: item_def)
  then show ?thesis
    using visualTransform_queryParts [OF assms(1), of js host]
    by (simp add: transformBody_one_series)
qed

text \<open>The failing input: the worked example with its first value series only.\<close>

theorem transform_raises_on_missing_series_witness:
  "queryParts (exampleQuery (Some exampleObjects) [exampleSeries1])
     = Some (Some exampleObjects, exampleCategory, [exampleSeries1])
   \<and> length [exampleSeries1] < 2
   \<and> visualTransform exampleRuntime exampleHost
        (exampleQuery (Some exampleObjects) [exampleSeries1]) = Inl TypeError"
proof -
  have "length [exampleSeries1] < 2"
    by simp
  from transform_raises_on_missing_series [OF example_queryParts this]
  show ?thesis
    by (simp add: example_queryParts)
qed

text \<open>An empty array \<open>categories\<close> passes the test of line 88 and line 89 raises.\<close>

lemma transform_raises_on_empty_categories:
  assumes "dataViews options = Some dvs" and "item dvs 0 = Some dv"
    and "categorical dv = Some c" and "categories c = Some []"
  shows "visualTransform js host options = Inl TypeError"
  using assms by (simp add: visualTransform_def item_def)

text \<open>
  C2 (the code breaks the claim). For a query result that passes the guard, with two
  value series of \<open>N\<close> values and \<open>N\<close> categories, whose persisted objects resolve
  both fills, \<open>visualTransform\<close> returns the \<open>2N\<close> points the claim describes, in its
  order (\<open>visualTransform_points\<close>). The claim promises them for every valid query
  result. When the host has persisted no fill for \<open>colorSelector\<close>, as for a visual
  whose colours were never edited, lines 109 and 110 raise before the loop starts, and
  no point is returned.
\<close>

theorem transform_raises_without_persisted_fill:
  assumes "queryParts options = Some (objs, cat, vals)"
    and "persisted objs ''colorSelector'' ''fill'' = None
       \<or> persisted objs ''colorSelector'' ''fill2'' = None"
  shows "visualTransform js host options = Inl TypeError"
  using visualTransform_queryParts [OF assms(1), of js host]
    transformBody_settings_error [OF resolveSettings_no_fill [OF assms(2)]]
  by simp

text \<open>
  The failing input: two categories, two series of two values, and persisted objects
  that hold an opacity and no colour.
\<close>

theorem transform_raises_without_persisted_fill_witness:
  "queryParts (exampleQuery (Some exampleOpacityOnly) [exampleSeries1, exampleSeries2])
     = Some (Some exampleOpacityOnly, exampleCategory, [exampleSeries1, exampleSeries2])
   \<and> length (category_values exampleCategory) = 2
   \<and> length (column_values exampleSeries1) = 2
   \<and> length (column_values exampleSeries2) = 2
   \<and> persisted (Some exampleOpacityOnly) ''colorSelector'' ''fill'' = None
   \<and> visualTransform exampleRuntime exampleHost
        (exampleQuery (Some exampleOpacityOnly) [exampleSeries1, exampleSeries2]) = Inl TypeError"
proof -
  have p: "persisted (Some exampleOpacityOnly) ''colorSelector'' ''fill'' = None
      \<or> persisted (Some exampleOpacityOnly) ''colorSelector'' ''fill2'' = None"
    by (simp add: persisted_def exampleOpacityOnly_def)
  from transform_raises_without_persisted_fill [OF example_queryParts p]
  show ?thesis
    by (simp add: example_queryParts persisted_def exampleOpacityOnly_def
        exampleCategory_def exampleSeries1_def exampleSeries2_def)
qed

text \<open>
  C7 (the code breaks the claim). The claim: with no persisted object properties the
  resolved settings are the defaults. They never are. An input that passes the guard
  raises at line 109: \<open>getValue\<close> returns the default it was handed, the palette's
  colour string, where the code expects a fill, and \<open>.solid.color\<close> of a string reads
  \<open>color\<close> of \<open>undefined\<close>. An input that stops at the guard returns the settings
  \<open>{}\<close>, which are not the defaults.
\<close>

theorem defaults_are_never_resolved:
  assumes "\<forall>dvs dv oname pname. dataViews options = Some dvs \<and> item dvs 0 = Some dv \<longrightarrow>
             persisted (objects (metadata dv)) oname pname = None"
  shows "visualTransform js host options = Inl TypeError
    \<or> (visualTransform js host options = Inr emptyViewModel
        \<and> settings emptyViewModel \<noteq> defaultSettings host)"
proof (cases "queryParts options")
  case None
  have "settings emptyViewModel \<noteq> defaultSettings host"
    by (simp add: emptyViewModel_def defaultSettings_def)
  then show ?thesis
    using visualTransform_no_parts [OF None, of js host] by auto
next
  case (Some parts)
  obtain objs cat vals where p: "parts = (objs, cat, vals)"
    by (cases parts) auto
  have qp: "queryParts options = Some (objs, cat, vals)"
    using Some p by simp
  from queryParts_objects [OF qp] assms
  have "persisted objs ''colorSelector'' ''fill'' = None"
    by auto
  then have "resolveSettings host objs = Inl TypeError"
    by (simp add: resolveSettings_no_fill)
  then show ?thesis
    using visualTransform_queryParts [OF qp, of js host]
    by (simp add: transformBody_settings_error)
qed

text \<open>The failing input: the worked example with no persisted objects.\<close>

theorem defaults_are_never_resolved_witness:
  "dataViews (exampleQuery None [exampleSeries1, exampleSeries2]) =
     Some [\<lparr>metadata = \<lparr>objects = None\<rparr>,
            categorical = Some \<lparr>categories = Some [exampleCategory],
                                value_columns = Some [exampleSeries1, exampleSeries2]\<rparr>\<rparr>]
   \<and> visualTransform exampleRuntime exampleHost
        (exampleQuery None [exampleSeries1, exampleSeries2]) = Inl TypeError
   \<and> visualTransform exampleRuntime exampleHost
        (exampleQuery None [exampleSeries1, exampleSeries2]) \<noteq> Inr emptyViewModel"
proof -
  have h: "\<forall>dvs dv oname pname.
      dataViews (exampleQuery None [exampleSeries1, exampleSeries2]) = Some dvs
        \<and> item dvs 0 = Some dv \<longrightarrow>
      persisted (objects (metadata dv)) oname pname = None"
    by (auto simp: exampleQuery_def item_def persisted_def)
  have q: "queryParts (exampleQuery None [exampleSeries1, exampleSeries2])
      = Some (None, exampleCategory, [exampleSeries1, exampleSeries2])"
    by (rule example_queryParts)
  have ne: "visualTransform exampleRuntime exampleHost
        (exampleQuery None [exampleSeries1, exampleSeries2]) \<noteq> Inr emptyViewModel"
  proof -
    have "visualTransform exampleRuntime exampleHost
        (exampleQuery None [exampleSeries1, exampleSeries2]) = Inl TypeError"
      using visualTransform_queryParts [OF q, of exampleRuntime exampleHost]
      by (simp add: transformBody_settings_error resolveSettings_None)
    then show ?thesis
      by simp
  qed
  from defaults_are_never_resolved [OF h, of exampleRuntime exampleHost] ne
  show ?thesis
    by (simp add: exampleQuery_def)
qed

section \<open>The formatting options after an update\<close>

lemma enumerate_unrecognized:
  assumes "name \<noteq> ''enableAxis''" and "name \<noteq> ''colorSelector''" and "name \<noteq> ''generalView''"
  shows "enumerateObjectInstances this name = Inr []"
  using assms by (simp add: enumerateObjectInstances_def)

lemma enumerate_after_completed_update:
  assumes "update js d3 host options this = (None, st)"
  shows "\<exists>instances. enumerateObjectInstances st name = Inr instances"
  using assms
proof (rule update_bars)
  fix vm ea gv
  assume vt: "visualTransform js host options = Inr vm"
    and s: "barChartSettings st = Some (settings vm)"
    and ea: "enableAxis (settings vm) = Some ea"
    and gv: "generalView (settings vm) = Some gv"
  from visualTransform_Inr [OF vt] ea obtain objs
    where "resolveSettings host objs = Inr (settings vm)"
    by (auto simp: emptyViewModel_def)
  from resolveSettings_Inr [OF this] obtain cs where "colorSelector (settings vm) = Some cs"
    by blast
  then show ?thesis
    using s ea gv by (simp add: enumerateObjectInstances_def)
qed

lemma enumerate_generalView:
  assumes "barChartSettings this = Some s" and "generalView s = Some gv"
  shows "enumerateObjectInstances this ''generalView'' =
    Inr [\<lparr>objectName = ''generalView'', displayName = None,
          properties = [(''opacity'', opacity gv), (''y2trim'', y2trim gv)],
          validValues = [(''opacity'', 10, 100), (''y2trim'', 50, 150)],
          selector = None\<rparr>]"
  using assms by (simp add: enumerateObjectInstances_def)

text \<open>
  C5 (the code breaks the claim). The claim: after at least one \<open>update\<close>, also one
  whose transform took the guard path, \<open>enumerateObjectInstances\<close> returns a list for
  every object name. After an \<open>update\<close> that ran to its end it does
  (\<open>enumerate_after_completed_update\<close>), and a name it does not know gives the empty
  list in every state (\<open>enumerate_unrecognized\<close>). But on the guard path
  \<open>visualTransform\<close> returns the settings \<open>{}\<close>; \<open>update\<close> stores them in
  \<open>barChartSettings\<close> (line 220) and then raises itself at line 231, and from there on
  each of the three names the enumerator knows reads a property of \<open>undefined\<close>.
\<close>

theorem enumerate_raises_after_guarded_update:
  assumes "visualTransform js host options = Inr emptyViewModel"
  shows "\<exists>st. update js d3 host options this = (Some TypeError, st)
    \<and> barChartSettings st =
        Some \<lparr>enableAxis = None, colorSelector = None, generalView = None\<rparr>
    \<and> enumerateObjectInstances st ''enableAxis'' = Inl TypeError
    \<and> enumerateObjectInstances st ''colorSelector'' = Inl TypeError
    \<and> enumerateObjectInstances st ''generalView'' = Inl TypeError
    \<and> enumerateObjectInstances st ''legend'' = Inr []"
  by (simp add: update_guard_path [OF assms] enumerateObjectInstances_def)

text \<open>
  The failing input: an \<open>update\<close> without \<open>dataViews\<close>, as the first call and after a
  completed one, then a request for \<open>enableAxis\<close> or \<open>generalView\<close>.
\<close>

theorem enumerate_raises_after_guarded_update_witness:
  "visualTransform exampleRuntime exampleHost exampleNoData = Inr emptyViewModel
   \<and> fst (update exampleRuntime exampleD3 exampleHost exampleNoData constructor) = Some TypeError
   \<and> enumerateObjectInstances
        (snd (update exampleRuntime exampleD3 exampleHost exampleNoData constructor))
        ''enableAxis'' = Inl TypeError
   \<and> enumerateObjectInstances
        (snd (update exampleRuntime exampleD3 exampleHost exampleNoData exampleChart))
        ''generalView'' = Inl TypeError"
proof -
  have g: "visualTransform exampleRuntime exampleHost exampleNoData = Inr emptyViewModel"
    by (simp add: visualTransform_def exampleNoData_def)
  from enumerate_raises_after_guarded_update [OF g, of exampleD3 constructor]
    enumerate_raises_after_guarded_update [OF g, of exampleD3 exampleChart] g
  show ?thesis
    by auto
qed

section \<open>Updates that build no scale\<close>

lemma example_no_objects_raises:
  "visualTransform exampleRuntime exampleHost (exampleQuery None series) = Inl TypeError"
  using visualTransform_queryParts [OF example_queryParts, of exampleRuntime exampleHost None series]
  by (simp add: transformBody_settings_error resolveSettings_None)

lemma example_no_data_guard:
  "visualTransform exampleRuntime exampleHost exampleNoData = Inr emptyViewModel"
  by (simp add: visualTransform_def exampleNoData_def)

text \<open>
  C4 (the code breaks the claim). The claim: in every \<open>update\<close> the primary scale has
  domain \<open>[0, dataMax * (2 - y2trim / 100)]\<close> and the secondary
  \<open>[0, dataMax2 * (y2trim / 100)]\<close>, both with range \<open>[height, 0]\<close>. The scales are built
  at lines 246 to 251, and not every \<open>update\<close> gets there. When the transform takes its
  guard path the settings are \<open>{}\<close> and \<open>update\<close> raises at line 231; when the
  transform raises (no persisted fill, fewer than two value series) \<open>update\<close> raises
  at line 219. Either way no scale is built: the axes and the bars are left as they
  were, on a fresh chart not drawn at all.
\<close>

theorem update_raises_before_scales:
  assumes "visualTransform js host options = Inr emptyViewModel
    \<or> visualTransform js host options = Inl TypeError"
  shows "\<exists>st. update js d3 host options this = (Some TypeError, st)
    \<and> xAxis st = xAxis this \<and> yAxis st = yAxis this \<and> yAxis2 st = yAxis2 this
    \<and> bars st = bars this"
  using assms
proof
  assume "visualTransform js host options = Inr emptyViewModel"
  from update_guard_path [OF this, of d3 this] show ?thesis
    by simp
next
  assume "visualTransform js host options = Inl TypeError"
  from update_transform_error [OF this, of d3 this] show ?thesis
    by simp
qed

text \<open>
  The failing inputs: on a fresh chart, an \<open>update\<close> without \<open>dataViews\<close>, and an
  \<open>update\<close> with the query of the worked example and no persisted objects.
\<close>

theorem update_raises_before_scales_witness:
  "visualTransform exampleRuntime exampleHost exampleNoData = Inr emptyViewModel
   \<and> fst (update exampleRuntime exampleD3 exampleHost exampleNoData constructor) = Some TypeError
   \<and> yAxis (snd (update exampleRuntime exampleD3 exampleHost exampleNoData constructor)) = None
   \<and> yAxis2 (snd (update exampleRuntime exampleD3 exampleHost exampleNoData constructor)) = None
   \<and> visualTransform exampleRuntime exampleHost
        (exampleQuery None [exampleSeries1, exampleSeries2]) = Inl TypeError
   \<and> fst (update exampleRuntime exampleD3 exampleHost
             (exampleQuery None [exampleSeries1, exampleSeries2]) constructor) = Some TypeError
   \<and> yAxis (snd (update exampleRuntime exampleD3 exampleHost
             (exampleQuery None [exampleSeries1, exampleSeries2]) constructor)) = None
   \<and> yAxis2 (snd (update exampleRuntime exampleD3 exampleHost
             (exampleQuery None [exampleSeries1, exampleSeries2]) constructor)) = None"
proof -
  have g: "visualTransform exampleRuntime exampleHost exampleNoData = Inr emptyViewModel
      \<or> visualTransform exampleRuntime exampleHost exampleNoData = Inl TypeError"
    by (simp add: example_no_data_guard)
  have r: "visualTransform exampleRuntime exampleHost
        (exampleQuery None [exampleSeries1, exampleSeries2]) = Inr emptyViewModel
      \<or> visualTransform exampleRuntime exampleHost
        (exampleQuery None [exampleSeries1, exampleSeries2]) = Inl TypeError"
    by (simp add: example_no_objects_raises)
  have c: "yAxis constructor = None" "yAxis2 constructor = None"
    by (simp_all add: constructor_def)
  from update_raises_before_scales [OF g, of exampleD3 constructor]
    update_raises_before_scales [OF r, of exampleD3 constructor]
  show ?thesis
    using example_no_data_guard example_no_objects_raises c by auto
qed

end
